theory Spec2Isabelle
  imports Complex_Main "HOL-Library.Sublist" "HOL-Library.List_Lexorder" "HOL-Library.Product_Lexorder"
begin

section \<open>Strings\<close>

text \<open>
  A JavaScript string is a sequence of UTF-16 code units. The model has the strings whose
  code units are below 256 (ASCII and the Latin-1 supplement): a \<open>char\<close> is the code unit
  with that number. On these strings the functions below are the JavaScript ones:
  white space (for \<open>trim\<close> and \<open>\s\<close>) is tab, line feed, vertical tab, form feed,
  carriage return, space and the no-break space U+00A0; \<open>toLowerCase\<close> moves \<open>A\<close>..\<open>Z\<close>
  and U+00C0..U+00DE (without the multiplication sign U+00D7) by 32; \<open>\w\<close> and \<open>\d\<close>
  are ASCII classes. \<open>toUpperCase\<close> turns the sharp s U+00DF into \<open>SS\<close>; the two
  letters whose capitals lie above U+00FF (the micro sign and the y with diaeresis) are
  left as they are.
\<close>

definition code :: "char \<Rightarrow> nat" where
  "code c = of_char c"

definition isUpper :: "char \<Rightarrow> bool" where
  "isUpper c = (65 \<le> code c \<and> code c \<le> 90)"

definition isLower :: "char \<Rightarrow> bool" where
  "isLower c = (97 \<le> code c \<and> code c \<le> 122)"

definition isDigit :: "char \<Rightarrow> bool" where
  "isDigit c = (48 \<le> code c \<and> code c \<le> 57)"

definition isWordChar :: "char \<Rightarrow> bool" where
  "isWordChar c = (isUpper c \<or> isLower c \<or> isDigit c \<or> c = CHR ''_'')"

definition isWhitespace :: "char \<Rightarrow> bool" where
  "isWhitespace c = (code c = 32 \<or> (9 \<le> code c \<and> code c \<le> 13) \<or> code c = 160)"

definition isUpperLatin :: "char \<Rightarrow> bool" where
  "isUpperLatin c = (192 \<le> code c \<and> code c \<le> 222 \<and> code c \<noteq> 215)"

definition isLowerLatin :: "char \<Rightarrow> bool" where
  "isLowerLatin c = (224 \<le> code c \<and> code c \<le> 254 \<and> code c \<noteq> 247)"

definition toLowerChar :: "char \<Rightarrow> char" where
  "toLowerChar c = (if isUpper c \<or> isUpperLatin c then char_of (code c + 32) else c)"

definition toUpperChar :: "char \<Rightarrow> string" where
  "toUpperChar c =
     (if isLower c \<or> isLowerLatin c then [char_of (code c - 32)]
      else if code c = 223 then ''SS''
      else [c])"

definition toLowerCase :: "string \<Rightarrow> string" where
  "toLowerCase s = map toLowerChar s"

definition toUpperCase :: "string \<Rightarrow> string" where
  "toUpperCase s = concat (map toUpperChar s)"

text \<open>SQLite folds the ASCII letters only, in \<open>LIKE\<close> and in the collation \<open>NOCASE\<close>.\<close>

definition asciiLowerChar :: "char \<Rightarrow> char" where
  "asciiLowerChar c = (if isUpper c then char_of (code c + 32) else c)"

definition asciiLower :: "string \<Rightarrow> string" where
  "asciiLower s = map asciiLowerChar s"

definition trim :: "string \<Rightarrow> string" where
  "trim s = rev (dropWhile isWhitespace (rev (dropWhile isWhitespace s)))"

definition startsWith :: "string \<Rightarrow> string \<Rightarrow> bool" where
  "startsWith s p = (take (length p) s = p)"

fun includesStr :: "string \<Rightarrow> string \<Rightarrow> bool" where
  "includesStr [] p = (p = [])"
| "includesStr (c # s) p = (startsWith (c # s) p \<or> includesStr s p)"

text \<open>\<open>s.split(c)\<close> for a one-character separator.\<close>

fun splitChar :: "char \<Rightarrow> string \<Rightarrow> string list" where
  "splitChar sep [] = [[]]"
| "splitChar sep (c # s) =
     (if c = sep then [] # splitChar sep s
      else (case splitChar sep s of
              [] \<Rightarrow> [[c]]
            | p # ps \<Rightarrow> (c # p) # ps))"

text \<open>\<open>parseInt\<close> on a string of decimal digits.\<close>

definition digitVal :: "char \<Rightarrow> int" where
  "digitVal c = int (code c) - 48"

definition parseInt :: "string \<Rightarrow> int" where
  "parseInt ds = foldl (\<lambda>a c. 10 * a + digitVal c) 0 ds"

section \<open>Numbers\<close>

text \<open>
  A JavaScript number is an IEEE 754 double. Integers are exact below \<open>2^53\<close> and are
  modelled as \<open>int\<close>. Where the program multiplies or divides by a number that is not an
  integer, the result is the double nearest to the exact result: \<open>double\<close> rounds a
  rational to the nearest double, ties to the even significand. The significand has 53
  bits; the exponent does not go below that of the subnormal numbers. Overflow to
  \<open>Infinity\<close> (beyond about \<open>1.8e308\<close>) is not modelled.
\<close>

function ilog2 :: "int \<Rightarrow> int" where
  "ilog2 n = (if n \<le> 1 then 0 else 1 + ilog2 (n div 2))"
  by pat_completeness auto
termination
  by (relation "measure nat") auto

declare ilog2.simps [simp del]

text \<open>The integer \<open>k\<close> with \<open>2^k \<le> x < 2^(k+1)\<close>, for a positive \<open>x\<close>.\<close>

definition floorLog2 :: "rat \<Rightarrow> int" where
  "floorLog2 x =
     (case quotient_of x of (p, q) \<Rightarrow>
        (let k = ilog2 p - ilog2 q
         in if 2 powi k \<le> x then k else k - 1))"

definition roundHalfEven :: "rat \<Rightarrow> int" where
  "roundHalfEven y =
     (let f = \<lfloor>y\<rfloor>; d = y - of_int f
      in if d < 1 / 2 then f
         else if 1 / 2 < d then f + 1
         else if even f then f
         else f + 1)"

definition double :: "rat \<Rightarrow> rat" where
  "double x =
     (if x = 0 then 0
      else
        (let e = max (floorLog2 \<bar>x\<bar> - 52) (- 1074);
             m = roundHalfEven (\<bar>x\<bar> / 2 powi e)
         in sgn x * of_int m * 2 powi e))"

section \<open>Regular expressions of the query parser\<close>

text \<open>
  A matcher is a regular expression anchored at the head of its argument: it returns the
  length of the match there, if any. \<open>matchAll\<close> is \<open>String.prototype.match\<close> with a
  global regular expression (the matched substrings, left to right, not overlapping) and
  \<open>replaceAllEmpty\<close> is \<open>replace(re, '')\<close> with a global regular expression.
\<close>

type_synonym matcher = "string \<Rightarrow> nat option"

fun matchAll :: "matcher \<Rightarrow> string \<Rightarrow> string list" where
  "matchAll m [] = []"
| "matchAll m (c # s) =
     (case m (c # s) of
        None \<Rightarrow> matchAll m s
      | Some n \<Rightarrow> take n (c # s) # matchAll m (drop (n - 1) s))"

fun replaceAllEmpty :: "matcher \<Rightarrow> string \<Rightarrow> string" where
  "replaceAllEmpty m [] = []"
| "replaceAllEmpty m (c # s) =
     (case m (c # s) of
        None \<Rightarrow> c # replaceAllEmpty m s
      | Some 0 \<Rightarrow> c # replaceAllEmpty m s
      | Some (Suc k) \<Rightarrow> replaceAllEmpty m (drop k s))"

text \<open>A regular expression without the global flag finds its first match.\<close>

fun firstMatch :: "(string \<Rightarrow> 'a option) \<Rightarrow> string \<Rightarrow> 'a option" where
  "firstMatch m [] = m []"
| "firstMatch m (c # s) =
     (case m (c # s) of
        Some r \<Rightarrow> Some r
      | None \<Rightarrow> firstMatch m s)"

text \<open>A literal of the pattern (given in lower case) under the \<open>i\<close> flag.\<close>

definition startsWithCI :: "string \<Rightarrow> string \<Rightarrow> bool" where
  "startsWithCI s p = (toLowerCase (take (length p) s) = p)"

text \<open>\<open>/ext:(\w+)/gi\<close> and \<open>/type:(\w+)/gi\<close>\<close>

definition extRx :: matcher where
  "extRx s =
     (if startsWithCI s ''ext:'' then
        (let w = takeWhile isWordChar (drop 4 s)
         in if w = [] then None else Some (4 + length w))
      else None)"

definition typeRx :: matcher where
  "typeRx s =
     (if startsWithCI s ''type:'' then
        (let w = takeWhile isWordChar (drop 5 s)
         in if w = [] then None else Some (5 + length w))
      else None)"

text \<open>
  \<open>/size:([><]?)(\d+)(kb|mb|gb)?/i\<close>: the three captured groups of a match at the head.
  Every quantifier is greedy and no shorter choice can make the rest match, so the
  match is determined without backtracking.
\<close>

definition sizeUnitAt :: "string \<Rightarrow> string" where
  "sizeUnitAt s =
     (if startsWithCI s ''kb'' \<or> startsWithCI s ''mb'' \<or> startsWithCI s ''gb''
      then take 2 s else [])"

definition sizeAt :: "string \<Rightarrow> (string \<times> string \<times> string) option" where
  "sizeAt s =
     (if startsWithCI s ''size:'' then
        (let r1 = drop 5 s;
             operator = (case r1 of
                           [] \<Rightarrow> []
                         | c # _ \<Rightarrow> if c = CHR ''>'' \<or> c = CHR ''<'' then [c] else []);
             r2 = drop (length operator) r1;
             ds = takeWhile isDigit r2;
             unit = sizeUnitAt (dropWhile isDigit r2)
         in if ds = [] then None else Some (operator, ds, unit))
      else None)"

definition sizeRx :: matcher where
  "sizeRx s =
     (case sizeAt s of
        None \<Rightarrow> None
      | Some (operator, ds, unit) \<Rightarrow> Some (5 + length operator + length ds + length unit))"

text \<open>\<open>/date:(today|yesterday|week|month|year)/gi\<close>\<close>

definition dateWordAt :: "string \<Rightarrow> string option" where
  "dateWordAt s =
     (if startsWithCI s ''today'' then Some (take 5 s)
      else if startsWithCI s ''yesterday'' then Some (take 9 s)
      else if startsWithCI s ''week'' then Some (take 4 s)
      else if startsWithCI s ''month'' then Some (take 5 s)
      else if startsWithCI s ''year'' then Some (take 4 s)
      else None)"

definition dateRx :: matcher where
  "dateRx s =
     (if startsWithCI s ''date:'' then
        (case dateWordAt (drop 5 s) of
           None \<Rightarrow> None
         | Some w \<Rightarrow> Some (5 + length w))
      else None)"

text \<open>\<open>match.split(':')[1]\<close> of a match, which always holds a colon.\<close>

definition afterColon :: "string \<Rightarrow> string" where
  "afterColon m = (case splitChar CHR '':'' m of _ # x # _ \<Rightarrow> x | _ \<Rightarrow> [])"


section \<open>The query parser of the search service\<close>

text \<open>
  \<open>SearchService.parseSearchOperators\<close>. The dates that the JavaScript \<open>Date\<close> object
  computes from the current time in the local time zone are taken from a calendar, in
  milliseconds since the epoch. \<open>parseInt\<close> and the products are doubles.
\<close>

record calendar =
  todayStart :: int
  yesterdayStart :: int
  weekAgo :: int
  monthAgo :: int
  yearAgo :: int

record operators =
  opExtensions :: "string list option"
  opSizeMin :: "rat option"
  opSizeMax :: "rat option"
  opDateModifiedFrom :: "int option"
  opDateModifiedTo :: "int option"
  opFileTypes :: "string list option"

definition noOperators :: operators where
  "noOperators =
     \<lparr>opExtensions = None, opSizeMin = None, opSizeMax = None,
      opDateModifiedFrom = None, opDateModifiedTo = None, opFileTypes = None\<rparr>"

definition sizeBytes :: "string \<Rightarrow> string \<Rightarrow> rat" where
  "sizeBytes ds unit =
     (let v = double (of_int (parseInt ds));
          u = toLowerCase (if unit = [] then ''b'' else unit)
      in if u = ''kb'' then double (v * 1024)
         else if u = ''mb'' then double (v * (1024 * 1024))
         else if u = ''gb'' then double (v * (1024 * 1024 * 1024))
         else v)"

definition applySizeMatch :: "operators \<Rightarrow> string \<Rightarrow> operators" where
  "applySizeMatch ops m =
     (case firstMatch sizeAt m of
        None \<Rightarrow> ops
      | Some (operator, ds, unit) \<Rightarrow>
          (let bytes = sizeBytes ds unit
           in if operator = ''>'' then ops\<lparr>opSizeMin := Some bytes\<rparr>
              else if operator = ''<'' then ops\<lparr>opSizeMax := Some bytes\<rparr>
              else ops\<lparr>opSizeMin := Some (double (bytes * double (9 / 10))),
                       opSizeMax := Some (double (bytes * double (11 / 10)))\<rparr>))"

definition applyDateType :: "calendar \<Rightarrow> operators \<Rightarrow> string \<Rightarrow> operators" where
  "applyDateType cal ops dateType =
     (if dateType = ''today'' then ops\<lparr>opDateModifiedFrom := Some (todayStart cal)\<rparr>
      else if dateType = ''yesterday'' then
        ops\<lparr>opDateModifiedFrom := Some (yesterdayStart cal),
            opDateModifiedTo := Some (todayStart cal)\<rparr>
      else if dateType = ''week'' then ops\<lparr>opDateModifiedFrom := Some (weekAgo cal)\<rparr>
      else if dateType = ''month'' then ops\<lparr>opDateModifiedFrom := Some (monthAgo cal)\<rparr>
      else if dateType = ''year'' then ops\<lparr>opDateModifiedFrom := Some (yearAgo cal)\<rparr>
      else ops)"

text \<open>The values of the \<open>FileType\<close> enum are its strings.\<close>

definition DOCUMENT :: string where "DOCUMENT = ''document''"
definition IMAGE :: string where "IMAGE = ''image''"
definition VIDEO :: string where "VIDEO = ''video''"
definition AUDIO :: string where "AUDIO = ''audio''"
definition ARCHIVE :: string where "ARCHIVE = ''archive''"
definition CODE :: string where "CODE = ''code''"
definition DIRECTORY :: string where "DIRECTORY = ''directory''"
definition OTHER :: string where "OTHER = ''other''"

definition operatorFileType :: "string \<Rightarrow> string" where
  "operatorFileType m =
     (let t = toLowerCase (afterColon m)
      in if t \<in> set [''doc'', ''document'', ''documents''] then DOCUMENT
         else if t \<in> set [''img'', ''image'', ''images''] then IMAGE
         else if t \<in> set [''vid'', ''video'', ''videos''] then VIDEO
         else if t \<in> set [''audio'', ''music''] then AUDIO
         else if t \<in> set [''archive'', ''zip''] then ARCHIVE
         else if t \<in> set [''code'', ''source''] then CODE
         else if t \<in> set [''folder'', ''directory'', ''dir''] then DIRECTORY
         else t)"

text \<open>
  The four steps of \<open>parseSearchOperators\<close>. Each one looks for its operator in the
  original query, and strips it from the query cleaned so far.
\<close>

definition extStep :: "string \<Rightarrow> string \<times> operators \<Rightarrow> string \<times> operators" where
  "extStep query st =
     (case st of (cleanQuery, ops) \<Rightarrow>
        (let extMatch = matchAll extRx query
         in if extMatch \<noteq> [] then
              (trim (replaceAllEmpty extRx cleanQuery),
               ops\<lparr>opExtensions :=
                     Some (map (\<lambda>m. ''.'' @ toLowerCase (afterColon m)) extMatch)\<rparr>)
            else (cleanQuery, ops)))"

definition sizeStep :: "string \<Rightarrow> string \<times> operators \<Rightarrow> string \<times> operators" where
  "sizeStep query st =
     (case st of (cleanQuery, ops) \<Rightarrow>
        (let sizeMatch = matchAll sizeRx query
         in if sizeMatch \<noteq> [] then
              (trim (replaceAllEmpty sizeRx cleanQuery), foldl applySizeMatch ops sizeMatch)
            else (cleanQuery, ops)))"

definition dateStep :: "calendar \<Rightarrow> string \<Rightarrow> string \<times> operators \<Rightarrow> string \<times> operators" where
  "dateStep cal query st =
     (case st of (cleanQuery, ops) \<Rightarrow>
        (case matchAll dateRx query of
           [] \<Rightarrow> (cleanQuery, ops)
         | m # _ \<Rightarrow>
             (trim (replaceAllEmpty dateRx cleanQuery),
              applyDateType cal ops (toLowerCase (afterColon m)))))"

definition typeStep :: "string \<Rightarrow> string \<times> operators \<Rightarrow> string \<times> operators" where
  "typeStep query st =
     (case st of (cleanQuery, ops) \<Rightarrow>
        (let typeMatch = matchAll typeRx query
         in if typeMatch \<noteq> [] then
              (trim (replaceAllEmpty typeRx cleanQuery),
               ops\<lparr>opFileTypes := Some (map operatorFileType typeMatch)\<rparr>)
            else (cleanQuery, ops)))"

definition parseSearchOperators :: "calendar \<Rightarrow> string \<Rightarrow> string \<times> operators" where
  "parseSearchOperators cal query =
     typeStep query (dateStep cal query (sizeStep query (extStep query (query, noOperators))))"


section \<open>The persistent store\<close>

text \<open>
  A \<open>FileItem\<close> of \<open>src/types\<close>. Sizes are integers, dates are milliseconds since the
  epoch, \<open>fileType\<close> holds the string of the \<open>FileType\<close> enum.
\<close>

record FileItem =
  fileId :: string
  name :: string
  path :: string
  fullPath :: string
  extension :: string
  fileSize :: int
  dateModified :: int
  dateCreated :: int
  isDirectory :: bool
  fileType :: string

text \<open>
  A row of the table \<open>files\<close>, and the store: the rows in rowid order, and the error
  that the database engine reports on every statement, if the database file is damaged or
  cannot be read. \<open>this.db\<close> is \<open>None\<close> before \<open>initialize\<close> and after \<open>close\<close>.
  The full-text mirror \<open>files_fts\<close> is written but never read, and is left out.
\<close>

record file_row =
  col_id :: string
  col_name :: string
  col_path :: string
  col_fullPath :: string
  col_extension :: string
  col_size :: int
  col_dateModified :: int
  col_dateCreated :: int
  col_isDirectory :: int
  col_type :: string

record store =
  files :: "file_row list"
  engineError :: "string option"

type_synonym database = "store option"

datatype error = Error string

datatype sqlval = SqlText string | SqlNum rat

record statement =
  sql :: string
  whereConditions :: "string list"
  params :: "sqlval list"

subsection \<open>The SQL that the program issues, as SQLite evaluates it\<close>

text \<open>
  \<open>LIKE\<close>: \<open>%\<close> stands for any sequence and \<open>_\<close> for any character; ASCII letters
  compare without case.
\<close>

fun like :: "string \<Rightarrow> string \<Rightarrow> bool" where
  "like [] s = (s = [])"
| "like (p # ps) [] = (p = CHR ''%'' \<and> like ps [])"
| "like (p # ps) (c # s) =
     (if p = CHR ''%'' then like ps (c # s) \<or> like (p # ps) s
      else (p = CHR ''_'' \<or> asciiLowerChar p = asciiLowerChar c) \<and> like ps s)"

definition compareSize :: "string \<Rightarrow> (rat \<Rightarrow> rat \<Rightarrow> bool) option" where
  "compareSize cond =
     (if cond = ''size > ?'' then Some (\<lambda>a b. a > b)
      else if cond = ''size >= ?'' then Some (\<lambda>a b. a \<ge> b)
      else if cond = ''size < ?'' then Some (\<lambda>a b. a < b)
      else if cond = ''size <= ?'' then Some (\<lambda>a b. a \<le> b)
      else if cond = ''size = ?'' then Some (\<lambda>a b. a = b)
      else None)"

text \<open>
  Binding the parameters to the conditions of the \<open>WHERE\<close> clause, left to right: the
  predicate on a row, and the parameters that are left. A condition that the program never
  writes, or a parameter of the wrong kind, is an error of the statement.
\<close>

fun bindWhere :: "string list \<Rightarrow> sqlval list \<Rightarrow> ((file_row \<Rightarrow> bool) \<times> sqlval list) option" where
  "bindWhere [] ps = Some (\<lambda>r. True, ps)"
| "bindWhere (cond # conds) ps =
     (if cond = ''type = ?'' then
        (case ps of
           SqlText v # ps' \<Rightarrow>
             (case bindWhere conds ps' of
                None \<Rightarrow> None
              | Some (f, rest) \<Rightarrow> Some (\<lambda>r. col_type r = v \<and> f r, rest))
         | _ \<Rightarrow> None)
      else if cond = ''extension = ?'' then
        (case ps of
           SqlText v # ps' \<Rightarrow>
             (case bindWhere conds ps' of
                None \<Rightarrow> None
              | Some (f, rest) \<Rightarrow> Some (\<lambda>r. col_extension r = v \<and> f r, rest))
         | _ \<Rightarrow> None)
      else if cond = ''(name LIKE ? OR path LIKE ? OR fullPath LIKE ?)'' then
        (case ps of
           SqlText a # SqlText b # SqlText c # ps' \<Rightarrow>
             (case bindWhere conds ps' of
                None \<Rightarrow> None
              | Some (f, rest) \<Rightarrow>
                  Some (\<lambda>r. (like a (col_name r) \<or> like b (col_path r) \<or> like c (col_fullPath r))
                             \<and> f r, rest))
         | _ \<Rightarrow> None)
      else
        (case (compareSize cond, ps) of
           (Some cmp, SqlNum v # ps') \<Rightarrow>
             (case bindWhere conds ps' of
                None \<Rightarrow> None
              | Some (f, rest) \<Rightarrow> Some (\<lambda>r. cmp (of_int (col_size r)) v \<and> f r, rest))
         | _ \<Rightarrow> None))"

text \<open>
  \<open>ORDER BY CASE WHEN isDirectory = 1 THEN 0 ELSE 1 END, name COLLATE NOCASE\<close>. Rows
  with equal keys stay in rowid order (SQLite leaves their order open).
\<close>

definition orderKey :: "file_row \<Rightarrow> nat \<times> nat list" where
  "orderKey r = (if col_isDirectory r = 1 then 0 else 1, map code (asciiLower (col_name r)))"

definition runSelect :: "store \<Rightarrow> statement \<Rightarrow> error + file_row list" where
  "runSelect st stmt =
     (case engineError st of
        Some e \<Rightarrow> Inl (Error e)
      | None \<Rightarrow>
          (case bindWhere (whereConditions stmt) (params stmt) of
             Some (f, [SqlNum limit, SqlNum offset]) \<Rightarrow>
               Inr (take (nat \<lfloor>limit\<rfloor>) (drop (nat \<lfloor>offset\<rfloor>)
                      (sort_key orderKey (filter f (files st)))))
           | _ \<Rightarrow> Inl (Error ''SQLITE_ERROR'')))"

subsection \<open>\<open>DatabaseService\<close> on sqlite3 (\<open>electron/services/database.ts\<close>)\<close>

record search_terms =
  termText :: "string option"
  termType :: "string option"
  termExtension :: "string option"
  termSize :: "string option"

definition noTerms :: search_terms where
  "noTerms = \<lparr>termText = None, termType = None, termExtension = None, termSize = None\<rparr>"

text \<open>\<open>query.split(/\s+/)\<close>\<close>

function splitWs :: "string \<Rightarrow> string list" where
  "splitWs [] = [[]]"
| "splitWs (c # s) =
     (if isWhitespace c then [] # splitWs (dropWhile isWhitespace s)
      else (case splitWs s of
              [] \<Rightarrow> [[c]]
            | p # ps \<Rightarrow> (c # p) # ps))"
  by pat_completeness auto
termination
  by (relation "measure length") (auto simp: length_dropWhile_le less_Suc_eq_le)

fun joinWith :: "string \<Rightarrow> string list \<Rightarrow> string" where
  "joinWith sep [] = []"
| "joinWith sep [p] = p"
| "joinWith sep (p # q # ps) = p @ sep @ joinWith sep (q # ps)"

definition typeAlias :: "string \<Rightarrow> string" where
  "typeAlias typeValue =
     (if typeValue \<in> set [''image'', ''img'', ''picture''] then ''IMAGE''
      else if typeValue \<in> set [''video'', ''movie''] then ''VIDEO''
      else if typeValue \<in> set [''audio'', ''music'', ''sound''] then ''AUDIO''
      else if typeValue \<in> set [''document'', ''doc'', ''text''] then ''DOCUMENT''
      else if typeValue \<in> set [''archive'', ''zip'', ''compressed''] then ''ARCHIVE''
      else if typeValue \<in> set [''folder'', ''directory'', ''dir''] then ''DIRECTORY''
      else toUpperCase typeValue)"

definition parsePart :: "search_terms \<times> string list \<Rightarrow> string \<Rightarrow> search_terms \<times> string list" where
  "parsePart acc part =
     (case acc of (terms, textParts) \<Rightarrow>
        if startsWith part ''type:'' then
          (terms\<lparr>termType := Some (typeAlias (toLowerCase (drop 5 part)))\<rparr>, textParts)
        else if startsWith part ''ext:'' then
          (terms\<lparr>termExtension := Some (drop 4 part)\<rparr>, textParts)
        else if startsWith part ''size:'' then
          (terms\<lparr>termSize := Some (drop 5 part)\<rparr>, textParts)
        else (terms, textParts @ [part]))"

definition parseSearchQuery :: "string \<Rightarrow> search_terms" where
  "parseSearchQuery query =
     (case foldl parsePart (noTerms, []) (splitWs query) of (terms, textParts) \<Rightarrow>
        if textParts \<noteq> [] then terms\<lparr>termText := Some (joinWith '' '' textParts)\<rparr>
        else terms)"

text \<open>
  \<open>parseSizeQuery\<close>, on \<open>/^([<>]=?)?(\d+(?:\.\d+)?)(kb|mb|gb|tb)?$/i\<close>. \<open>parseFloat\<close>
  of the digits is the double nearest to the decimal.
\<close>

definition parseFloat :: "string \<Rightarrow> string \<Rightarrow> rat" where
  "parseFloat ip fp = double (of_int (parseInt ip) + of_int (parseInt fp) / 10 ^ length fp)"

definition multiplier :: "string \<Rightarrow> rat option" where
  "multiplier unit =
     (if unit = ''b'' then Some 1
      else if unit = ''kb'' then Some 1024
      else if unit = ''mb'' then Some (1024 * 1024)
      else if unit = ''gb'' then Some (1024 * 1024 * 1024)
      else if unit = ''tb'' then Some (1024 * 1024 * 1024 * 1024)
      else None)"

definition sizeOperatorAt :: "string \<Rightarrow> string" where
  "sizeOperatorAt s =
     (case s of
        [] \<Rightarrow> []
      | c # t \<Rightarrow>
          if c = CHR ''<'' \<or> c = CHR ''>'' then
            (case t of
               [] \<Rightarrow> [c]
             | d # _ \<Rightarrow> if d = CHR ''='' then [c, d] else [c])
          else [])"

definition fractionAt :: "string \<Rightarrow> string" where
  "fractionAt s =
     (case s of
        [] \<Rightarrow> []
      | c # t \<Rightarrow> if c = CHR ''.'' then takeWhile isDigit t else [])"

definition parseSizeQuery :: "string \<Rightarrow> (string \<times> sqlval list) option" where
  "parseSizeQuery sizeQuery =
     (let op = sizeOperatorAt sizeQuery;
          r1 = drop (length op) sizeQuery;
          ip = takeWhile isDigit r1;
          r2 = dropWhile isDigit r1;
          fp = fractionAt r2;
          r3 = (if fp = [] then r2 else drop (1 + length fp) r2);
          unit = (if r3 = [] then ''b'' else toLowerCase r3)
      in if ip = [] \<or> r3 \<noteq> [] \<and> unit \<notin> set [''kb'', ''mb'', ''gb'', ''tb''] then None
         else
           (case multiplier unit of
              None \<Rightarrow> None
            | Some m \<Rightarrow>
                (let operator = (if op = [] then ''='' else op);
                     bytes = double (parseFloat ip fp * m);
                     condition =
                       (if operator = ''>'' then ''size > ?''
                        else if operator = ''>='' then ''size >= ?''
                        else if operator = ''<'' then ''size < ?''
                        else if operator = ''<='' then ''size <= ?''
                        else ''size = ?'')
                 in Some (condition, [SqlNum bytes]))))"

definition truthy :: "string option \<Rightarrow> bool" where
  "truthy v = (case v of None \<Rightarrow> False | Some s \<Rightarrow> s \<noteq> [])"

definition rowToFile :: "file_row \<Rightarrow> FileItem" where
  "rowToFile row =
     \<lparr>fileId = col_id row, name = col_name row, path = col_path row,
      fullPath = col_fullPath row, extension = col_extension row, fileSize = col_size row,
      dateModified = col_dateModified row, dateCreated = col_dateCreated row,
      isDirectory = (col_isDirectory row = 1), fileType = col_type row\<rparr>"

text \<open>
  The statement of \<open>searchFiles\<close>: the conditions and their parameters, in the order in
  which the code pushes them, then the text of the statement (its white space reduced to
  single blanks).
\<close>

definition orderLimitClause :: string where
  "orderLimitClause =
     '' ORDER BY CASE WHEN isDirectory = 1 THEN 0 ELSE 1 END, name COLLATE NOCASE LIMIT ? OFFSET ?''"

definition searchStatement :: "string \<Rightarrow> nat \<Rightarrow> nat \<Rightarrow> statement" where
  "searchStatement query limit offset =
     (let searchTerms = parseSearchQuery query;
          (c1, p1) =
            (if truthy (termType searchTerms)
             then ([''type = ?''], [SqlText (the (termType searchTerms))])
             else ([], []));
          (c2, p2) =
            (if truthy (termExtension searchTerms)
             then (c1 @ [''extension = ?''],
                   p1 @ [SqlText (if startsWith (the (termExtension searchTerms)) ''.''
                                  then the (termExtension searchTerms)
                                  else ''.'' @ the (termExtension searchTerms))])
             else (c1, p1));
          (c3, p3) =
            (if truthy (termSize searchTerms)
             then (case parseSizeQuery (the (termSize searchTerms)) of
                     None \<Rightarrow> (c2, p2)
                   | Some (condition, ps) \<Rightarrow> (c2 @ [condition], p2 @ ps))
             else (c2, p2));
          (whereConditions, sqlParams) =
            (if truthy (termText searchTerms)
             then (let likeQuery = ''%'' @ the (termText searchTerms) @ ''%''
                   in (c3 @ [''(name LIKE ? OR path LIKE ? OR fullPath LIKE ?)''],
                       p3 @ [SqlText likeQuery, SqlText likeQuery, SqlText likeQuery]))
             else (c3, p3))
      in if whereConditions \<noteq> [] then
           \<lparr>sql = ''SELECT * FROM files WHERE '' @ joinWith '' AND '' whereConditions
                    @ orderLimitClause,
            whereConditions = whereConditions,
            params = sqlParams @ [SqlNum (of_nat limit), SqlNum (of_nat offset)]\<rparr>
         else
           \<lparr>sql = ''SELECT * FROM files'' @ orderLimitClause,
            whereConditions = [],
            params = [SqlNum (of_nat limit), SqlNum (of_nat offset)]\<rparr>)"

definition searchFiles :: "database \<Rightarrow> string \<Rightarrow> nat \<Rightarrow> nat \<Rightarrow> error + FileItem list" where
  "searchFiles db query limit offset =
     (case db of
        None \<Rightarrow> Inl (Error ''Database not initialized'')
      | Some st \<Rightarrow>
          (case runSelect st (searchStatement query limit offset) of
             Inl err \<Rightarrow> Inl err
           | Inr rows \<Rightarrow> Inr (map rowToFile rows)))"


subsection \<open>\<open>DatabaseService\<close> on better-sqlite3 (the second implementation)\<close>

text \<open>
  The second \<open>DatabaseService\<close> of the repository runs its statements synchronously and
  raises what the first one passes to its callback. Its query functions are translated
  from its own text.
\<close>

definition bs3_typeAlias :: "string \<Rightarrow> string" where
  "bs3_typeAlias typeValue =
     (if typeValue \<in> set [''image'', ''img'', ''picture''] then ''IMAGE''
      else if typeValue \<in> set [''video'', ''movie''] then ''VIDEO''
      else if typeValue \<in> set [''audio'', ''music'', ''sound''] then ''AUDIO''
      else if typeValue \<in> set [''document'', ''doc'', ''text''] then ''DOCUMENT''
      else if typeValue \<in> set [''archive'', ''zip'', ''compressed''] then ''ARCHIVE''
      else if typeValue \<in> set [''folder'', ''directory'', ''dir''] then ''DIRECTORY''
      else toUpperCase typeValue)"

definition bs3_parsePart :: "search_terms \<times> string list \<Rightarrow> string \<Rightarrow> search_terms \<times> string list" where
  "bs3_parsePart acc part =
     (case acc of (terms, textParts) \<Rightarrow>
        if startsWith part ''type:'' then
          (terms\<lparr>termType := Some (bs3_typeAlias (toLowerCase (drop 5 part)))\<rparr>, textParts)
        else if startsWith part ''ext:'' then
          (terms\<lparr>termExtension := Some (drop 4 part)\<rparr>, textParts)
        else if startsWith part ''size:'' then
          (terms\<lparr>termSize := Some (drop 5 part)\<rparr>, textParts)
        else (terms, textParts @ [part]))"

definition bs3_parseSearchQuery :: "string \<Rightarrow> search_terms" where
  "bs3_parseSearchQuery query =
     (case foldl bs3_parsePart (noTerms, []) (splitWs query) of (terms, textParts) \<Rightarrow>
        if textParts \<noteq> [] then terms\<lparr>termText := Some (joinWith '' '' textParts)\<rparr>
        else terms)"

definition bs3_multiplier :: "string \<Rightarrow> rat option" where
  "bs3_multiplier unit =
     (if unit = ''b'' then Some 1
      else if unit = ''kb'' then Some 1024
      else if unit = ''mb'' then Some (1024 * 1024)
      else if unit = ''gb'' then Some (1024 * 1024 * 1024)
      else if unit = ''tb'' then Some (1024 * 1024 * 1024 * 1024)
      else None)"

definition bs3_parseSizeQuery :: "string \<Rightarrow> (string \<times> sqlval list) option" where
  "bs3_parseSizeQuery sizeQuery =
     (let op = sizeOperatorAt sizeQuery;
          r1 = drop (length op) sizeQuery;
          ip = takeWhile isDigit r1;
          r2 = dropWhile isDigit r1;
          fp = fractionAt r2;
          r3 = (if fp = [] then r2 else drop (1 + length fp) r2);
          unit = (if r3 = [] then ''b'' else toLowerCase r3)
      in if ip = [] \<or> r3 \<noteq> [] \<and> unit \<notin> set [''kb'', ''mb'', ''gb'', ''tb''] then None
         else
           (case bs3_multiplier unit of
              None \<Rightarrow> None
            | Some m \<Rightarrow>
                (let operator = (if op = [] then ''='' else op);
                     bytes = double (parseFloat ip fp * m);
                     condition =
                       (if operator = ''>'' then ''size > ?''
                        else if operator = ''>='' then ''size >= ?''
                        else if operator = ''<'' then ''size < ?''
                        else if operator = ''<='' then ''size <= ?''
                        else ''size = ?'')
                 in Some (condition, [SqlNum bytes]))))"

definition bs3_searchStatement :: "string \<Rightarrow> nat \<Rightarrow> nat \<Rightarrow> statement" where
  "bs3_searchStatement query limit offset =
     (let searchTerms = bs3_parseSearchQuery query;
          (c1, p1) =
            (if truthy (termType searchTerms)
             then ([''type = ?''], [SqlText (the (termType searchTerms))])
             else ([], []));
          (c2, p2) =
            (if truthy (termExtension searchTerms)
             then (c1 @ [''extension = ?''],
                   p1 @ [SqlText (if startsWith (the (termExtension searchTerms)) ''.''
                                  then the (termExtension searchTerms)
                                  else ''.'' @ the (termExtension searchTerms))])
             else (c1, p1));
          (c3, p3) =
            (if truthy (termSize searchTerms)
             then (case bs3_parseSizeQuery (the (termSize searchTerms)) of
                     None \<Rightarrow> (c2, p2)
                   | Some (condition, ps) \<Rightarrow> (c2 @ [condition], p2 @ ps))
             else (c2, p2));
          (whereConditions, sqlParams) =
            (if truthy (termText searchTerms)
             then (let likeQuery = ''%'' @ the (termText searchTerms) @ ''%''
                   in (c3 @ [''(name LIKE ? OR path LIKE ? OR fullPath LIKE ?)''],
                       p3 @ [SqlText likeQuery, SqlText likeQuery, SqlText likeQuery]))
             else (c3, p3))
      in if whereConditions \<noteq> [] then
           \<lparr>sql = ''SELECT * FROM files WHERE '' @ joinWith '' AND '' whereConditions
                    @ orderLimitClause,
            whereConditions = whereConditions,
            params = sqlParams @ [SqlNum (of_nat limit), SqlNum (of_nat offset)]\<rparr>
         else
           \<lparr>sql = ''SELECT * FROM files'' @ orderLimitClause,
            whereConditions = [],
            params = [SqlNum (of_nat limit), SqlNum (of_nat offset)]\<rparr>)"

definition bs3_searchFiles :: "database \<Rightarrow> string \<Rightarrow> nat \<Rightarrow> nat \<Rightarrow> error + FileItem list" where
  "bs3_searchFiles db query limit offset =
     (case db of
        None \<Rightarrow> Inl (Error ''Database not initialized'')
      | Some st \<Rightarrow>
          (case runSelect st (bs3_searchStatement query limit offset) of
             Inl err \<Rightarrow> Inl err
           | Inr rows \<Rightarrow> Inr (map rowToFile rows)))"

section \<open>The search service\<close>

datatype bound = Finite rat | Infinity

record SearchFilters =
  fileTypes :: "string list option"
  extensions :: "string list option"
  sizeMin :: "rat option"
  sizeMax :: "bound option"
  dateModifiedFrom :: "int option"
  dateModifiedTo :: "int option"
  includeDirectories :: "bool option"

record SearchResult =
  items :: "FileItem list"
  totalCount :: nat
  query :: string
  executionTime :: int

text \<open>
  The fuzzy index is a Fuse.js object: the files it was built from and its options. How
  Fuse.js ranks the files for a query is outside the repository, and is a parameter
  \<open>fuse\<close> of the search: the matching files, best first. The weights and the threshold
  of the options are kept as the decimals that the program writes; the program does no
  arithmetic on them.
\<close>

record fuse_key =
  keyName :: string
  weight :: rat

record fuse_options =
  keys :: "fuse_key list"
  threshold :: rat
  distance :: nat
  includeScore :: bool
  includeMatches :: bool

record fuse_index =
  docs :: "FileItem list"
  options :: fuse_options

type_synonym fuse_engine = "fuse_index \<Rightarrow> string \<Rightarrow> FileItem list"

record search_service =
  fuseIndex :: "fuse_index option"
  lastIndexUpdate :: int

text \<open>The readings of \<open>Date.now()\<close> during one call, in milliseconds.\<close>

record clock =
  startTime :: int
  now :: int
  endTime :: int

definition indexUpdateThreshold :: int where
  "indexUpdateThreshold = 5 * 60 * 1000"

definition listOrEmpty :: "'a list option \<Rightarrow> 'a list" where
  "listOrEmpty v = (case v of None \<Rightarrow> [] | Some xs \<Rightarrow> xs)"

text \<open>\<open>x || 0\<close> and \<open>x || Infinity\<close> on an optional number: zero is falsy.\<close>

definition orZero :: "rat option \<Rightarrow> rat" where
  "orZero v = (case v of None \<Rightarrow> 0 | Some x \<Rightarrow> x)"

definition orInfinity :: "bound option \<Rightarrow> bound" where
  "orInfinity v =
     (case v of
        None \<Rightarrow> Infinity
      | Some Infinity \<Rightarrow> Infinity
      | Some (Finite x) \<Rightarrow> if x = 0 then Infinity else Finite x)"

definition minBound :: "bound \<Rightarrow> bound \<Rightarrow> bound" where
  "minBound a b =
     (case (a, b) of
        (Infinity, _) \<Rightarrow> b
      | (_, Infinity) \<Rightarrow> a
      | (Finite x, Finite y) \<Rightarrow> Finite (min x y))"

definition firstSome :: "'a option \<Rightarrow> 'a option \<Rightarrow> 'a option" where
  "firstSome a b = (case a of Some x \<Rightarrow> Some x | None \<Rightarrow> b)"

definition combineFilters :: "SearchFilters \<Rightarrow> operators \<Rightarrow> SearchFilters" where
  "combineFilters filters ops =
     filters\<lparr>
       extensions := Some (listOrEmpty (extensions filters) @ listOrEmpty (opExtensions ops)),
       fileTypes := Some (listOrEmpty (fileTypes filters) @ listOrEmpty (opFileTypes ops)),
       sizeMin := Some (max (orZero (sizeMin filters)) (orZero (opSizeMin ops))),
       sizeMax := Some (minBound (orInfinity (sizeMax filters))
                                 (orInfinity (map_option Finite (opSizeMax ops)))),
       dateModifiedFrom := firstSome (opDateModifiedFrom ops) (dateModifiedFrom filters),
       dateModifiedTo := firstSome (opDateModifiedTo ops) (dateModifiedTo filters),
       includeDirectories := includeDirectories filters\<rparr>"

definition hasWildcardOrSpecial :: "string \<Rightarrow> bool" where
  "hasWildcardOrSpecial q =
     (CHR ''*'' \<in> set q \<or> CHR ''?'' \<in> set q \<or>
      (\<exists>c \<in> set q. \<not> (isLower c \<or> isUpper c \<or> isDigit c \<or> isWhitespace c \<or>
                        c = CHR ''-'' \<or> c = CHR ''_'' \<or> c = CHR ''.'')))"

definition shouldUseFuzzySearch :: "string \<Rightarrow> bool" where
  "shouldUseFuzzySearch q = (length q > 3 \<and> hasWildcardOrSpecial q)"

definition databaseSearch :: "database \<Rightarrow> string \<Rightarrow> SearchFilters \<Rightarrow> nat \<Rightarrow> nat \<Rightarrow> error + FileItem list" where
  "databaseSearch db q filters limit offset = searchFiles db q (limit * 2) offset"

definition searchWithFilters :: "database \<Rightarrow> SearchFilters \<Rightarrow> nat \<Rightarrow> nat \<Rightarrow> error + FileItem list" where
  "searchWithFilters db filters limit offset = searchFiles db [] (limit * 2) offset"

definition fuseOptions :: fuse_options where
  "fuseOptions =
     \<lparr>keys = [\<lparr>keyName = ''name'', weight = 7 / 10\<rparr>,
              \<lparr>keyName = ''path'', weight = 2 / 10\<rparr>,
              \<lparr>keyName = ''extension'', weight = 1 / 10\<rparr>],
      threshold = 4 / 10, distance = 100, includeScore = True, includeMatches = True\<rparr>"

text \<open>\<open>updateFuseIndex\<close> keeps the old index when the store cannot be read.\<close>

definition updateFuseIndex :: "clock \<Rightarrow> database \<Rightarrow> search_service \<Rightarrow> search_service" where
  "updateFuseIndex clk db svc =
     (if fuseIndex svc \<noteq> None \<and> now clk - lastIndexUpdate svc < indexUpdateThreshold then svc
      else
        (case searchFiles db [] 10000 0 of
           Inl err \<Rightarrow> svc
         | Inr allFiles \<Rightarrow>
             svc\<lparr>fuseIndex := Some \<lparr>docs = allFiles, options = fuseOptions\<rparr>,
                 lastIndexUpdate := now clk\<rparr>))"

definition fuzzySearch ::
  "fuse_engine \<Rightarrow> clock \<Rightarrow> database \<Rightarrow> search_service \<Rightarrow> string \<Rightarrow> SearchFilters \<Rightarrow> nat \<Rightarrow> nat
     \<Rightarrow> FileItem list \<times> search_service" where
  "fuzzySearch fuse clk db svc q filters limit offset =
     (let svc' = updateFuseIndex clk db svc
      in case fuseIndex svc' of
           None \<Rightarrow> ([], svc')
         | Some idx \<Rightarrow> (take (limit * 2) (fuse idx q), svc'))"

definition nonEmptyList :: "'a list option \<Rightarrow> bool" where
  "nonEmptyList v = (case v of None \<Rightarrow> False | Some xs \<Rightarrow> xs \<noteq> [])"

definition keepFile :: "SearchFilters \<Rightarrow> FileItem \<Rightarrow> bool" where
  "keepFile filters file =
     (if nonEmptyList (fileTypes filters) \<and> fileType file \<notin> set (listOrEmpty (fileTypes filters))
        then False
      else if nonEmptyList (extensions filters)
              \<and> extension file \<notin> set (listOrEmpty (extensions filters))
        then False
      else if (case sizeMin filters of
                 None \<Rightarrow> False
               | Some m \<Rightarrow> m \<noteq> 0 \<and> of_int (fileSize file) < m)
        then False
      else if (case sizeMax filters of
                 None \<Rightarrow> False
               | Some Infinity \<Rightarrow> False
               | Some (Finite m) \<Rightarrow> m \<noteq> 0 \<and> of_int (fileSize file) > m)
        then False
      else if (case dateModifiedFrom filters of
                 None \<Rightarrow> False
               | Some d \<Rightarrow> dateModified file < d)
        then False
      else if (case dateModifiedTo filters of
                 None \<Rightarrow> False
               | Some d \<Rightarrow> dateModified file > d)
        then False
      else if includeDirectories filters = Some False \<and> isDirectory file
        then False
      else True)"

definition applyFilters :: "FileItem list \<Rightarrow> SearchFilters \<Rightarrow> FileItem list" where
  "applyFilters fs filters = filter (keepFile filters) fs"

definition calculateRelevanceScore :: "int \<Rightarrow> FileItem \<Rightarrow> string \<Rightarrow> int" where
  "calculateRelevanceScore nowMs file q =
     (let queryLower = toLowerCase q;
          nameLower = toLowerCase (name file);
          pathLower = toLowerCase (path file);
          s1 = (if nameLower = queryLower then 100
                else if startsWith nameLower queryLower then 80
                else if includesStr nameLower queryLower then 60
                else 0);
          s2 = (if includesStr pathLower queryLower then s1 + 20 else s1);
          daysSinceModified = double (of_int (nowMs - dateModified file) / (1000 * 60 * 60 * 24));
          s3 = (if daysSinceModified < 7 then s2 + 10
                else if daysSinceModified < 30 then s2 + 5
                else s2)
      in if fileSize file < 1024 * 1024 then s3 + 5 else s3)"

text \<open>
  \<open>Array.prototype.sort\<close> is stable; with the comparator \<open>b - a\<close> on a key it is the
  stable sort by descending key.
\<close>

definition sortResults :: "int \<Rightarrow> FileItem list \<Rightarrow> string \<Rightarrow> FileItem list" where
  "sortResults nowMs fs q =
     (if trim q = [] then sort_key (\<lambda>f. - dateModified f) fs
      else sort_key (\<lambda>f. - calculateRelevanceScore nowMs f q) fs)"

text \<open>The three strategies of \<open>search\<close>, chosen on the cleaned query.\<close>

datatype strategy = FiltersOnly | Fuzzy | Structured

definition chooseStrategy :: "string \<Rightarrow> strategy" where
  "chooseStrategy cleanQuery =
     (if trim cleanQuery = [] then FiltersOnly
      else if shouldUseFuzzySearch cleanQuery then Fuzzy
      else Structured)"

text \<open>
  The body of the \<open>try\<close> block of \<open>search\<close>. The filters argument is \<open>None\<close> when the
  caller passes \<open>null\<close>: reading a property of it raises a \<open>TypeError\<close>.
\<close>

definition searchBody ::
  "fuse_engine \<Rightarrow> clock \<Rightarrow> calendar \<Rightarrow> database \<Rightarrow> search_service \<Rightarrow> string
     \<Rightarrow> SearchFilters option \<Rightarrow> nat \<Rightarrow> nat \<Rightarrow> error + (SearchResult \<times> search_service)" where
  "searchBody fuse clk cal db svc q filtersArg limit offset =
     (case parseSearchOperators cal q of (cleanQuery, ops) \<Rightarrow>
        (case filtersArg of
           None \<Rightarrow> Inl (Error ''Cannot read properties of null'')
         | Some filters \<Rightarrow>
             (let combinedFilters = combineFilters filters ops;
                  found =
                    (case chooseStrategy cleanQuery of
                       FiltersOnly \<Rightarrow>
                         map_sum id (\<lambda>r. (r, svc)) (searchWithFilters db combinedFilters limit offset)
                     | Fuzzy \<Rightarrow>
                         Inr (fuzzySearch fuse clk db svc cleanQuery combinedFilters limit offset)
                     | Structured \<Rightarrow>
                         map_sum id (\<lambda>r. (r, svc))
                           (databaseSearch db cleanQuery combinedFilters limit offset))
              in case found of
                   Inl err \<Rightarrow> Inl err
                 | Inr (results, svc') \<Rightarrow>
                     (let filtered = applyFilters results combinedFilters;
                          sorted = sortResults (now clk) filtered cleanQuery;
                          paginatedResults = take limit (drop offset sorted)
                      in Inr (\<lparr>items = paginatedResults, totalCount = length sorted,
                               query = q, executionTime = endTime clk - startTime clk\<rparr>,
                              svc')))))"

definition search ::
  "fuse_engine \<Rightarrow> clock \<Rightarrow> calendar \<Rightarrow> database \<Rightarrow> search_service \<Rightarrow> string
     \<Rightarrow> SearchFilters option \<Rightarrow> nat \<Rightarrow> nat \<Rightarrow> SearchResult \<times> search_service" where
  "search fuse clk cal db svc q filtersArg limit offset =
     (case searchBody fuse clk cal db svc q filtersArg limit offset of
        Inr r \<Rightarrow> r
      | Inl err \<Rightarrow>
          (\<lparr>items = [], totalCount = 0, query = q,
            executionTime = endTime clk - startTime clk\<rparr>, svc))"


section \<open>Writing to the store\<close>

text \<open>
  \<open>INSERT OR REPLACE\<close>: a row with the same \<open>id\<close> (the primary key) or the same
  \<open>fullPath\<close> (declared \<open>UNIQUE\<close>) is deleted, and the new row gets a fresh rowid.
\<close>

definition insertOrReplace :: "file_row \<Rightarrow> file_row list \<Rightarrow> file_row list" where
  "insertOrReplace row rows =
     filter (\<lambda>r. col_id r \<noteq> col_id row \<and> col_fullPath r \<noteq> col_fullPath row) rows @ [row]"

definition fileToRow :: "FileItem \<Rightarrow> file_row" where
  "fileToRow file =
     \<lparr>col_id = fileId file, col_name = name file, col_path = path file,
      col_fullPath = fullPath file, col_extension = extension file, col_size = fileSize file,
      col_dateModified = dateModified file, col_dateCreated = dateCreated file,
      col_isDirectory = (if isDirectory file then 1 else 0), col_type = fileType file\<rparr>"

text \<open>\<open>insertFiles\<close> writes \<open>file.type || 'unknown'\<close>.\<close>

definition batchRow :: "FileItem \<Rightarrow> file_row" where
  "batchRow file = (fileToRow file)\<lparr>col_type := (if fileType file = [] then ''unknown'' else fileType file)\<rparr>"

definition insertFile :: "database \<Rightarrow> FileItem \<Rightarrow> error + database" where
  "insertFile db file =
     (case db of
        None \<Rightarrow> Inl (Error ''Database not initialized'')
      | Some st \<Rightarrow>
          (case engineError st of
             Some e \<Rightarrow> Inl (Error e)
           | None \<Rightarrow> Inr (Some (st\<lparr>files := insertOrReplace (fileToRow file) (files st)\<rparr>))))"

definition insertFiles :: "database \<Rightarrow> FileItem list \<Rightarrow> error + database" where
  "insertFiles db batch =
     (case db of
        None \<Rightarrow> Inl (Error ''Database not initialized'')
      | Some st \<Rightarrow>
          if batch = [] then Inr db
          else (case engineError st of
                  Some e \<Rightarrow> Inl (Error e)
                | None \<Rightarrow>
                    Inr (Some (st\<lparr>files := foldl (\<lambda>rows f. insertOrReplace (batchRow f) rows)
                                                (files st) batch\<rparr>))))"

definition deleteFile :: "database \<Rightarrow> string \<Rightarrow> error + database" where
  "deleteFile db p =
     (case db of
        None \<Rightarrow> Inl (Error ''Database not initialized'')
      | Some st \<Rightarrow>
          (case engineError st of
             Some e \<Rightarrow> Inl (Error e)
           | None \<Rightarrow> Inr (Some (st\<lparr>files := filter (\<lambda>r. col_fullPath r \<noteq> p) (files st)\<rparr>))))"

definition clearAll :: "database \<Rightarrow> error + database" where
  "clearAll db =
     (case db of
        None \<Rightarrow> Inl (Error ''Database not initialized'')
      | Some st \<Rightarrow>
          (case engineError st of
             Some e \<Rightarrow> Inl (Error e)
           | None \<Rightarrow> Inr (Some (st\<lparr>files := []\<rparr>))))"

section \<open>The host: paths, file system, identifiers\<close>

text \<open>
  Node's \<open>path\<close> module depends on the platform and is outside the repository: its
  functions are parameters. \<open>uuid\<close> is the supply of \<open>uuidv4()\<close>, by the number of
  identifiers drawn before.
\<close>

record pathlib =
  sep :: char
  normalize :: "string \<Rightarrow> string"
  join :: "string \<Rightarrow> string \<Rightarrow> string"
  extname :: "string \<Rightarrow> string"
  basename :: "string \<Rightarrow> string"
  dirname :: "string \<Rightarrow> string"
  relative :: "string \<Rightarrow> string \<Rightarrow> string"

record host =
  pathLib :: pathlib
  win32 :: bool
  uuid :: "nat \<Rightarrow> string"

text \<open>
  What \<open>fs.stat\<close> returns. \<open>birthtime\<close> is a \<open>Date\<close> object, which is never falsy, so
  \<open>stats.birthtime || stats.ctime\<close> is \<open>stats.birthtime\<close>.
\<close>

record stats =
  statSize :: int
  mtime :: int
  birthtime :: int
  statIsDirectory :: bool

text \<open>
  A directory entry as \<open>readdir\<close> lists it: one for which \<open>isDirectory()\<close> is false, with
  what \<open>fs.stat\<close> gives for it (the error code if it throws); a directory with its own
  entries; a directory that \<open>readdir\<close> cannot read, with the error code.
\<close>

datatype fsentry =
    FileEntry string "string + stats"
  | DirEntry string "fsentry list"
  | BrokenDir string string

fun entryName :: "fsentry \<Rightarrow> string" where
  "entryName (FileEntry n _) = n"
| "entryName (DirEntry n _) = n"
| "entryName (BrokenDir n _) = n"

section \<open>The indexer\<close>

record IndexingProgress =
  progressIsIndexing :: bool
  progressCurrentPath :: "string option"
  filesProcessed :: nat
  progress :: rat

record indexer =
  isIndexing :: bool
  shouldStop :: bool
  currentProgress :: IndexingProgress

definition defaultExclusions :: "string list" where
  "defaultExclusions =
     [''node_modules'', ''.git'', ''.svn'', ''.hg'', ''temp'', ''tmp'', ''$recycle.bin'',
      ''system volume information'', ''windows'', ''appdata'', ''.cache'', ''.npm'', ''.yarn'',
      ''cache'', ''logs'', ''.vscode'', ''.idea'', ''build'', ''dist'', ''out'', ''target'']"

text \<open>The loop of \<open>shouldExcludePath\<close> over the exclusions, which returns at the first hit.\<close>

fun exclusionHit :: "string \<Rightarrow> string list \<Rightarrow> string list \<Rightarrow> bool" where
  "exclusionHit normalizedPath pathParts [] = False"
| "exclusionHit normalizedPath pathParts (exclusion # rest) =
     (let normalizedExclusion = toLowerCase exclusion
      in if normalizedExclusion \<in> set pathParts then True
         else if includesStr normalizedPath normalizedExclusion then True
         else exclusionHit normalizedPath pathParts rest)"

definition shouldExcludePath :: "pathlib \<Rightarrow> string \<Rightarrow> string list \<Rightarrow> bool" where
  "shouldExcludePath P currentPath excludePaths =
     (let normalizedPath = toLowerCase (normalize P currentPath);
          pathParts = splitChar (sep P) normalizedPath
      in if exclusionHit normalizedPath pathParts (defaultExclusions @ excludePaths) then True
         else if length pathParts > 20 then True
         else False)"

definition getFileType :: "pathlib \<Rightarrow> string \<Rightarrow> bool \<Rightarrow> string" where
  "getFileType P fileName isDir =
     (if isDir then DIRECTORY
      else
        (let ext = toLowerCase (extname P fileName)
         in if ext \<in> set [''.pdf'', ''.doc'', ''.docx'', ''.txt'', ''.rtf'', ''.odt'', ''.xls'',
                           ''.xlsx'', ''.ppt'', ''.pptx''] then DOCUMENT
            else if ext \<in> set [''.jpg'', ''.jpeg'', ''.png'', ''.gif'', ''.bmp'', ''.svg'',
                                ''.webp'', ''.ico'', ''.tiff''] then IMAGE
            else if ext \<in> set [''.mp4'', ''.avi'', ''.mkv'', ''.mov'', ''.wmv'', ''.flv'',
                                ''.webm'', ''.m4v''] then VIDEO
            else if ext \<in> set [''.mp3'', ''.wav'', ''.flac'', ''.aac'', ''.ogg'', ''.wma'',
                                ''.m4a''] then AUDIO
            else if ext \<in> set [''.zip'', ''.rar'', ''.7z'', ''.tar'', ''.gz'', ''.bz2'',
                                ''.xz''] then ARCHIVE
            else if ext \<in> set [''.js'', ''.ts'', ''.jsx'', ''.tsx'', ''.py'', ''.java'', ''.c'',
                                ''.cpp'', ''.cs'', ''.php'', ''.rb'', ''.go'', ''.rs'', ''.html'',
                                ''.css'', ''.scss'', ''.json'', ''.xml'', ''.yaml'', ''.yml'']
              then CODE
            else OTHER))"

text \<open>
  The state that \<open>scanDirectory\<close> works on: the array \<open>files\<close> it appends to, the stop
  flag and the progress of the indexer, and the number of identifiers drawn. The stop flag
  is read, never written, by the scan: a call of \<open>stopIndexing\<close> that arrives while the
  scan is suspended is not modelled. Events and log lines are not modelled.
\<close>

record scan =
  found :: "FileItem list"
  stopFlag :: bool
  scanProgress :: IndexingProgress
  drawn :: nat

definition skippedName :: "host \<Rightarrow> string \<Rightarrow> bool" where
  "skippedName h entry =
     (startsWith entry ''.'' \<or> startsWith entry ''$'' \<or>
      (win32 h \<and> toLowerCase entry \<in> set [''pagefile.sys'', ''hiberfil.sys'', ''swapfile.sys'']))"

definition scannedItem :: "host \<Rightarrow> string \<Rightarrow> string \<Rightarrow> string \<Rightarrow> stats \<Rightarrow> nat \<Rightarrow> FileItem" where
  "scannedItem h rootPath currentPath entry st k =
     (let fullPath = join (pathLib h) currentPath entry;
          relativePath = relative (pathLib h) rootPath (dirname (pathLib h) fullPath)
      in \<lparr>fileId = uuid h k, name = entry,
          path = (if relativePath = [] then ''.'' else relativePath),
          fullPath = fullPath,
          extension = toLowerCase (extname (pathLib h) entry),
          fileSize = statSize st, dateModified = mtime st, dateCreated = birthtime st,
          isDirectory = False, fileType = getFileType (pathLib h) entry False\<rparr>)"

text \<open>The first loop of \<open>scanDirectory\<close>: the entries that are not directories.\<close>

fun scanFiles :: "host \<Rightarrow> string \<Rightarrow> string \<Rightarrow> fsentry list \<Rightarrow> scan \<Rightarrow> scan" where
  "scanFiles h rootPath currentPath [] s = s"
| "scanFiles h rootPath currentPath (e # es) s =
     (if stopFlag s then s
      else if skippedName h (entryName e) then scanFiles h rootPath currentPath es s
      else
        (case e of
           FileEntry entry (Inr st) \<Rightarrow>
             (let item = scannedItem h rootPath currentPath entry st (drawn s);
                  n = Suc (filesProcessed (scanProgress s));
                  pr = (scanProgress s)\<lparr>filesProcessed := n\<rparr>;
                  pr' = (if n mod 50 = 0
                         then pr\<lparr>progressCurrentPath := Some (fullPath item)\<rparr> else pr)
              in scanFiles h rootPath currentPath es
                   (s\<lparr>found := found s @ [item], scanProgress := pr', drawn := Suc (drawn s)\<rparr>))
         | _ \<Rightarrow> scanFiles h rootPath currentPath es s))"

text \<open>
  \<open>scanDirectory\<close> on a directory whose entries \<open>readdir\<close> has listed, and its second
  loop \<open>scanSubdirectories\<close>: the source collects the paths of the directories that the
  first loop did not skip and then visits them in order; the model walks the entries again
  and visits the same directories in the same order.
\<close>

fun scanDirectory :: "host \<Rightarrow> string list \<Rightarrow> string \<Rightarrow> string \<Rightarrow> fsentry list \<Rightarrow> scan \<Rightarrow> scan"
and scanSubdirectories :: "host \<Rightarrow> string list \<Rightarrow> string \<Rightarrow> string \<Rightarrow> fsentry list \<Rightarrow> scan \<Rightarrow> scan"
where
  "scanDirectory h excludePaths rootPath currentPath entries s =
     (if stopFlag s then s
      else if shouldExcludePath (pathLib h) currentPath excludePaths then s
      else scanSubdirectories h excludePaths rootPath currentPath entries
             (scanFiles h rootPath currentPath entries s))"
| "scanSubdirectories h excludePaths rootPath currentPath [] s = s"
| "scanSubdirectories h excludePaths rootPath currentPath (e # es) s =
     (if stopFlag s then s
      else
        (case e of
           DirEntry entry children \<Rightarrow>
             if skippedName h entry then
               scanSubdirectories h excludePaths rootPath currentPath es s
             else
               scanSubdirectories h excludePaths rootPath currentPath es
                 (scanDirectory h excludePaths rootPath
                    (join (pathLib h) currentPath entry) children s)
         | _ \<Rightarrow> scanSubdirectories h excludePaths rootPath currentPath es s))"

text \<open>
  The batches of \<open>indexPath\<close>: \<open>files.slice(i, i + batchSize)\<close> for \<open>i\<close> in steps of 500.
  A batch that the store rejects is skipped.
\<close>

definition batchSize :: nat where
  "batchSize = 500"

function insertBatches ::
  "FileItem list \<Rightarrow> nat \<Rightarrow> bool \<Rightarrow> nat \<times> IndexingProgress \<times> database
     \<Rightarrow> nat \<times> IndexingProgress \<times> database" where
  "insertBatches fs i stop acc =
     (if i < length fs \<and> \<not> stop then
        (case acc of (totalProcessed, pr, db) \<Rightarrow>
           (let batch = take batchSize (drop i fs)
            in case insertFiles db batch of
                 Inl err \<Rightarrow> insertBatches fs (i + batchSize) stop acc
               | Inr db' \<Rightarrow>
                   (let totalProcessed' = totalProcessed + length batch;
                        pr' = pr\<lparr>filesProcessed := totalProcessed',
                                 progress :=
                                   min 95 (double (double (of_nat totalProcessed'
                                                             / of_nat (length fs)) * 100)),
                                 progressCurrentPath := None\<rparr>
                    in insertBatches fs (i + batchSize) stop (totalProcessed', pr', db'))))
      else acc)"
  by pat_completeness auto
termination
  by (relation "measure (\<lambda>(fs, i, stop, acc). length fs - i)") (auto simp: batchSize_def)

declare insertBatches.simps [simp del]

text \<open>The file system: what \<open>readdir\<close> gives for a root path, with the tree below it.\<close>

type_synonym filesystem = "string \<Rightarrow> string + fsentry list"

definition indexPath ::
  "host \<Rightarrow> filesystem \<Rightarrow> string \<Rightarrow> string list \<Rightarrow> indexer \<times> nat \<times> database
     \<Rightarrow> indexer \<times> nat \<times> database" where
  "indexPath h fs rootPath excludePaths st =
     (case st of (idx, k, db) \<Rightarrow>
        (let s0 = \<lparr>found = [], stopFlag = shouldStop idx,
                   scanProgress = currentProgress idx, drawn = k\<rparr>;
             s = (case fs rootPath of
                    Inl errCode \<Rightarrow> s0
                  | Inr entries \<Rightarrow> scanDirectory h excludePaths rootPath rootPath entries s0)
         in if found s = [] then (idx\<lparr>currentProgress := scanProgress s\<rparr>, drawn s, db)
            else
              (case insertBatches (found s) 0 (shouldStop idx)
                      (0, scanProgress s, db) of
                 (totalProcessed, pr, db') \<Rightarrow>
                   (idx\<lparr>currentProgress := pr\<rparr>, drawn s, db'))))"

text \<open>
  \<open>startIndexing\<close> up to its first \<open>await\<close> (\<open>beginIndexing\<close>) and to its end. The
  message of \<open>currentPath\<close> during the batches is not modelled.
\<close>

definition beginIndexing :: "indexer \<Rightarrow> error + indexer" where
  "beginIndexing idx =
     (if isIndexing idx then Inl (Error ''Indexing already in progress'')
      else Inr (idx\<lparr>isIndexing := True, shouldStop := False,
                    currentProgress :=
                      \<lparr>progressIsIndexing = True, progressCurrentPath = None,
                       filesProcessed = 0, progress = 0\<rparr>\<rparr>))"

fun indexRoots ::
  "host \<Rightarrow> filesystem \<Rightarrow> string list \<Rightarrow> string list \<Rightarrow> indexer \<times> nat \<times> database
     \<Rightarrow> indexer \<times> nat \<times> database" where
  "indexRoots h fs [] excludePaths st = st"
| "indexRoots h fs (rootPath # rest) excludePaths st =
     (if shouldStop (fst st) then st
      else indexRoots h fs rest excludePaths (indexPath h fs rootPath excludePaths st))"

definition startIndexing ::
  "host \<Rightarrow> filesystem \<Rightarrow> string list \<Rightarrow> string list \<Rightarrow> indexer \<times> database
     \<Rightarrow> error + indexer \<times> database" where
  "startIndexing h fs roots excludePaths st =
     (case st of (idx, db) \<Rightarrow>
        (case beginIndexing idx of
           Inl err \<Rightarrow> Inl err
         | Inr idx1 \<Rightarrow>
             (case clearAll db of
                Inl err \<Rightarrow>
                  Inr (idx1\<lparr>isIndexing := False,
                            currentProgress := (currentProgress idx1)\<lparr>progressIsIndexing := False\<rparr>\<rparr>,
                       db)
              | Inr db1 \<Rightarrow>
                  (case indexRoots h fs roots excludePaths (idx1, 0, db1) of
                     (idx2, k, db2) \<Rightarrow>
                       Inr (idx2\<lparr>isIndexing := False,
                                 currentProgress :=
                                   (currentProgress idx2)\<lparr>progressIsIndexing := False,
                                                          progress := 100\<rparr>\<rparr>,
                            db2)))))"


section \<open>The file watcher\<close>

text \<open>
  The events that chokidar delivers for one watched root, after its own filtering by the
  ignore predicate; \<open>fs.stat\<close> at the time of the event is a parameter.
\<close>

record watcher =
  watchers :: "string list"
  isWatching :: bool

datatype watch_event =
    Add string
  | Change string
  | Unlink string
  | AddDir string
  | UnlinkDir string

definition createFileItem :: "host \<Rightarrow> string \<Rightarrow> string \<Rightarrow> string + stats \<Rightarrow> nat \<Rightarrow> error + FileItem" where
  "createFileItem h filePath rootPath statResult k =
     (case statResult of
        Inl errCode \<Rightarrow> Inl (Error errCode)
      | Inr st \<Rightarrow>
          (let fileName = basename (pathLib h) filePath;
               relativePath = relative (pathLib h) rootPath (dirname (pathLib h) filePath)
           in Inr \<lparr>fileId = uuid h k, name = fileName,
                   path = (if relativePath = [] then ''.'' else relativePath),
                   fullPath = filePath,
                   extension = (if statIsDirectory st then []
                                else toLowerCase (extname (pathLib h) fileName)),
                   fileSize = statSize st, dateModified = mtime st, dateCreated = birthtime st,
                   isDirectory = statIsDirectory st,
                   fileType = getFileType (pathLib h) fileName (statIsDirectory st)\<rparr>))"

text \<open>
  The handlers of \<open>add\<close>, \<open>change\<close> and \<open>addDir\<close> build an item and upsert it; those of
  \<open>unlink\<close> and \<open>unlinkDir\<close> delete by path. Every handler catches its errors and
  leaves the store as it was.
\<close>

definition upsertFromEvent ::
  "host \<Rightarrow> string \<Rightarrow> (string \<Rightarrow> string + stats) \<Rightarrow> string \<Rightarrow> database \<times> nat \<Rightarrow> database \<times> nat" where
  "upsertFromEvent h watchPath stat p st =
     (case st of (db, k) \<Rightarrow>
        (case createFileItem h p watchPath (stat p) k of
           Inl err \<Rightarrow> (db, k)
         | Inr fileItem \<Rightarrow>
             (case insertFile db fileItem of
                Inl err \<Rightarrow> (db, Suc k)
              | Inr db' \<Rightarrow> (db', Suc k))))"

definition deleteFromEvent :: "string \<Rightarrow> database \<times> nat \<Rightarrow> database \<times> nat" where
  "deleteFromEvent p st =
     (case st of (db, k) \<Rightarrow>
        (case deleteFile db p of
           Inl err \<Rightarrow> (db, k)
         | Inr db' \<Rightarrow> (db', k)))"

fun handleEvent ::
  "host \<Rightarrow> string \<Rightarrow> (string \<Rightarrow> string + stats) \<Rightarrow> database \<times> nat \<Rightarrow> watch_event \<Rightarrow> database \<times> nat" where
  "handleEvent h watchPath stat st (Add p) = upsertFromEvent h watchPath stat p st"
| "handleEvent h watchPath stat st (Change p) = upsertFromEvent h watchPath stat p st"
| "handleEvent h watchPath stat st (AddDir p) = upsertFromEvent h watchPath stat p st"
| "handleEvent h watchPath stat st (Unlink p) = deleteFromEvent p st"
| "handleEvent h watchPath stat st (UnlinkDir p) = deleteFromEvent p st"

text \<open>\<open>/^[A-Z]:\\?$/\<close>: a bare drive root.\<close>

definition isDriveRoot :: "string \<Rightarrow> bool" where
  "isDriveRoot p =
     (case p of
        [d, c] \<Rightarrow> isUpper d \<and> c = CHR '':''
      | [d, c, b] \<Rightarrow> isUpper d \<and> c = CHR '':'' \<and> code b = 92
      | _ \<Rightarrow> False)"

text \<open>
  \<open>startWatching\<close>; \<open>watchFails\<close> tells for which paths \<open>chokidar.watch\<close> throws.
\<close>

definition startWatching :: "host \<Rightarrow> (string \<Rightarrow> bool) \<Rightarrow> string list \<Rightarrow> watcher \<Rightarrow> watcher" where
  "startWatching h watchFails ps w =
     (if isWatching w then w
      else foldl (\<lambda>w' watchPath.
                    if win32 h \<and> isDriveRoot watchPath then w'
                    else if watchFails watchPath then w'
                    else if watchPath \<in> set (watchers w') then w'
                    else w'\<lparr>watchers := watchers w' @ [watchPath]\<rparr>)
                 (w\<lparr>isWatching := True\<rparr>) ps)"

section \<open>The start-indexing handler\<close>

text \<open>
  The request as it arrives over IPC: \<open>paths\<close> may be missing, may be something else than
  an array, and the elements of the array may be something else than strings.
\<close>

datatype jsval = JsString string | JsOther

datatype paths_field = Missing | NotArray | Array "jsval list"

record IpcIndexRequest =
  paths :: paths_field
  excludePaths :: "string list option"

datatype IpcResponse = Success string | Failure string

fun validPath :: "jsval \<Rightarrow> string list" where
  "validPath (JsString p) = (if length (trim p) > 0 then [p] else [])"
| "validPath JsOther = []"

text \<open>
  The handler answers after \<open>startIndexing\<close> has run up to its first \<open>await\<close> and
  \<open>startWatching\<close> has returned; the indexing run goes on in the background, and what it
  raises later goes to the \<open>indexing-error\<close> channel, not into the answer.
\<close>

definition startIndexingHandler ::
  "host \<Rightarrow> (string \<Rightarrow> bool) \<Rightarrow> IpcIndexRequest \<Rightarrow> indexer \<times> watcher
     \<Rightarrow> IpcResponse \<times> indexer \<times> watcher" where
  "startIndexingHandler h watchFails request st =
     (case st of (idx, w) \<Rightarrow>
        if isIndexing idx then (Failure ''Indexing already in progress'', idx, w)
        else
          (case paths request of
             Missing \<Rightarrow> (Failure ''No valid paths provided for indexing'', idx, w)
           | NotArray \<Rightarrow> (Failure ''No valid paths provided for indexing'', idx, w)
           | Array ps \<Rightarrow>
               if ps = [] then (Failure ''No valid paths provided for indexing'', idx, w)
               else
                 (let validPaths = concat (map validPath ps)
                  in if validPaths = [] then
                       (Failure ''No valid paths provided for indexing'', idx, w)
                     else
                       (let excludes = (case excludePaths request of None \<Rightarrow> [] | Some xs \<Rightarrow> xs);
                            idx' = (case beginIndexing idx of Inl err \<Rightarrow> idx | Inr i \<Rightarrow> i);
                            w' = startWatching h watchFails validPaths w
                        in (Success ''Indexing started successfully'', idx', w')))))"

section \<open>A sample host\<close>

text \<open>
  The POSIX functions of Node's \<open>path\<close> module, as they behave on absolute paths that are
  already normalized (no empty, \<open>.\<close> or \<open>..\<close> segment, no trailing slash) and on plain entry
  names. They serve to run the model on concrete inputs.
\<close>

definition lastDot :: "string \<Rightarrow> nat option" where
  "lastDot n =
     (case filter (\<lambda>i. n ! i = CHR ''.'') (rev [0..<length n]) of
        [] \<Rightarrow> None
      | i # _ \<Rightarrow> Some i)"

definition posixExtname :: "string \<Rightarrow> string" where
  "posixExtname n =
     (case lastDot n of
        None \<Rightarrow> []
      | Some i \<Rightarrow> if i = 0 then [] else drop i n)"

definition posixBasename :: "string \<Rightarrow> string" where
  "posixBasename p = last (splitChar CHR ''/'' p)"

definition posixDirname :: "string \<Rightarrow> string" where
  "posixDirname p = joinWith ''/'' (butlast (splitChar CHR ''/'' p))"

definition posixRelative :: "string \<Rightarrow> string \<Rightarrow> string" where
  "posixRelative a b =
     (if b = a then []
      else if startsWith b (a @ ''/'') then drop (length a + 1) b
      else b)"

definition posix :: pathlib where
  "posix =
     \<lparr>sep = CHR ''/'', normalize = (\<lambda>p. p), join = (\<lambda>a b. a @ ''/'' @ b),
      extname = posixExtname, basename = posixBasename, dirname = posixDirname,
      relative = posixRelative\<rparr>"

definition sampleHost :: host where
  "sampleHost = \<lparr>pathLib = posix, win32 = False, uuid = (\<lambda>k. ''id-'' @ replicate k CHR ''i'')\<rparr>"


section \<open>Sample inputs\<close>

definition sampleCalendar :: calendar where
  "sampleCalendar =
     \<lparr>todayStart = 1700000000000, yesterdayStart = 1699913600000, weekAgo = 1699400000000,
      monthAgo = 1697400000000, yearAgo = 1668500000000\<rparr>"

definition sampleClock :: clock where
  "sampleClock = \<lparr>startTime = 1700003600000, now = 1700003600000, endTime = 1700003600004\<rparr>"

definition noFilters :: SearchFilters where
  "noFilters =
     \<lparr>fileTypes = None, extensions = None, sizeMin = None, sizeMax = None,
      dateModifiedFrom = None, dateModifiedTo = None, includeDirectories = None\<rparr>"

definition freshService :: search_service where
  "freshService = \<lparr>fuseIndex = None, lastIndexUpdate = 0\<rparr>"

text \<open>A stand-in for Fuse.js that ranks every file of the index, in the order of the index.\<close>

definition sampleFuse :: fuse_engine where
  "sampleFuse idx q = docs idx"

definition sampleRow :: "string \<Rightarrow> int \<Rightarrow> int \<Rightarrow> file_row" where
  "sampleRow n sz modified =
     \<lparr>col_id = ''id-'' @ n, col_name = n, col_path = ''.'', col_fullPath = ''/data/'' @ n,
      col_extension = ''.txt'', col_size = sz, col_dateModified = modified,
      col_dateCreated = modified, col_isDirectory = 0, col_type = ''document''\<rparr>"

definition storeOf :: "file_row list \<Rightarrow> database" where
  "storeOf rows = Some \<lparr>files = rows, engineError = None\<rparr>"

definition brokenStore :: database where
  "brokenStore = Some \<lparr>files = [], engineError = Some ''SQLITE_IOERR''\<rparr>"

definition idleIndexer :: indexer where
  "idleIndexer =
     \<lparr>isIndexing = False, shouldStop = False,
      currentProgress = \<lparr>progressIsIndexing = False, progressCurrentPath = None,
                         filesProcessed = 0, progress = 0\<rparr>\<rparr>"

definition idleWatcher :: watcher where
  "idleWatcher = \<lparr>watchers = [], isWatching = False\<rparr>"

definition directoryStats :: stats where
  "directoryStats =
     \<lparr>statSize = 4096, mtime = 1700000000000, birthtime = 1690000000000,
      statIsDirectory = True\<rparr>"

definition fileStats :: stats where
  "fileStats =
     \<lparr>statSize = 120, mtime = 1700000000000, birthtime = 1690000000000,
      statIsDirectory = False\<rparr>"

text \<open>
  A root \<open>/data\<close> with a file \<open>notes.txt\<close>, a regular file named \<open>build\<close>, a
  directory \<open>dist\<close> and a directory \<open>docs\<close>.
\<close>

definition sampleTree :: "fsentry list" where
  "sampleTree =
     [FileEntry ''notes.txt'' (Inr fileStats),
      DirEntry ''dist'' [FileEntry ''bundle.js'' (Inr fileStats)],
      FileEntry ''build'' (Inr fileStats),
      DirEntry ''docs'' [FileEntry ''Guide.PDF'' (Inr fileStats),
                         FileEntry ''gone.tmp'' (Inl ''ENOENT'')]]"

definition sampleFs :: filesystem where
  "sampleFs p = (if p = ''/data'' then Inr sampleTree else Inl ''ENOENT'')"

section \<open>Predicates on the store\<close>

definition rowsOf :: "database \<Rightarrow> file_row set" where
  "rowsOf db = (case db of None \<Rightarrow> {} | Some st \<Rightarrow> set (files st))"

definition directoryRowsHaveNoExtension :: "database \<Rightarrow> bool" where
  "directoryRowsHaveNoExtension db =
     (\<forall>r \<in> rowsOf db. col_isDirectory r = 1 \<longrightarrow> col_extension r = [])"

definition rowList :: "database \<Rightarrow> file_row list" where
  "rowList db = (case db of None \<Rightarrow> [] | Some st \<Rightarrow> files st)"

section \<open>The relevance score in the words of the specification\<close>

text \<open>
  100 if the lower-cased name equals the query, else 80 if it starts with it, else 60 if it
  contains it; plus 20 if the path contains the query; plus 10 if modified within the last
  7 days, else 5 if within 30 days; plus 5 if the size is under 1 MB. The query is compared
  in lower case.
\<close>

definition dayMs :: int where
  "dayMs = 1000 * 60 * 60 * 24"

definition specRelevance :: "int \<Rightarrow> FileItem \<Rightarrow> string \<Rightarrow> int" where
  "specRelevance nowMs file q =
     (if toLowerCase (name file) = toLowerCase q then 100
      else if startsWith (toLowerCase (name file)) (toLowerCase q) then 80
      else if includesStr (toLowerCase (name file)) (toLowerCase q) then 60
      else 0)
     + (if includesStr (toLowerCase (path file)) (toLowerCase q) then 20 else 0)
     + (if nowMs - dateModified file < 7 * dayMs then 10
        else if nowMs - dateModified file < 30 * dayMs then 5
        else 0)
     + (if fileSize file < 1024 * 1024 then 5 else 0)"

section \<open>More sample inputs\<close>

text \<open>A small file modified 40 days before the sample clock, a large one 35 days before.\<close>

definition olderSmallFile :: FileItem where
  "olderSmallFile = rowToFile (sampleRow ''a.txt'' 10 1696547600000)"

definition newerLargeFile :: FileItem where
  "newerLargeFile = rowToFile (sampleRow ''b.txt'' 2097152 1696979600000)"

definition reportFile :: FileItem where
  "reportFile = rowToFile (sampleRow ''report.txt'' 2048 1700000000000)"

definition elevenRows :: "file_row list" where
  "elevenRows =
     [sampleRow ''f01.txt'' 100 1700000000001, sampleRow ''f02.txt'' 100 1700000000002,
      sampleRow ''f03.txt'' 100 1700000000003, sampleRow ''f04.txt'' 100 1700000000004,
      sampleRow ''f05.txt'' 100 1700000000005, sampleRow ''f06.txt'' 100 1700000000006,
      sampleRow ''f07.txt'' 100 1700000000007, sampleRow ''f08.txt'' 100 1700000000008,
      sampleRow ''f09.txt'' 100 1700000000009, sampleRow ''f10.txt'' 100 1700000000010,
      sampleRow ''f11.txt'' 100 1700000000011]"

text \<open>The names on one page of the search for the empty query over the eleven rows.\<close>

definition pageNames :: "nat \<Rightarrow> nat \<Rightarrow> string list" where
  "pageNames limit offset =
     map name (items (fst (search sampleFuse sampleClock sampleCalendar (storeOf elevenRows)
                             freshService [] (Some noFilters) limit offset)))"

section \<open>The position of the first colon\<close>

definition colonAt :: "string \<Rightarrow> nat" where
  "colonAt s = length (takeWhile (\<lambda>c. c \<noteq> CHR '':'') s)"

text \<open>
  The index of a service is either absent or was built by \<open>updateFuseIndex\<close>: the
  constructor sets it to \<open>null\<close> and nothing else assigns it.
\<close>

definition indexBuiltByService :: "search_service \<Rightarrow> bool" where
  "indexBuiltByService svc =
     (case fuseIndex svc of None \<Rightarrow> True | Some idx \<Rightarrow> options idx = fuseOptions)"

text \<open>A service whose index was built long before the sample clock.\<close>

definition staleService :: search_service where
  "staleService =
     \<lparr>fuseIndex = Some \<lparr>docs = [reportFile], options = fuseOptions\<rparr>, lastIndexUpdate = 0\<rparr>"

section \<open>Facts about double-precision arithmetic\<close>

lemma ilog2_bounds:
  "1 \<le> n \<Longrightarrow> 0 \<le> ilog2 n \<and> 2 ^ nat (ilog2 n) \<le> n \<and> n < 2 * 2 ^ nat (ilog2 n)"
proof (induction n rule: ilog2.induct)
  case (1 n)
  show ?case
  proof (cases "n \<le> 1")
    case True
    with "1.prems" have "n = 1" by simp
    then show ?thesis by (simp add: ilog2.simps)
  next
    case False
    then have h: "1 \<le> n div 2" by simp
    from "1.IH" [OF False h]
    have k: "0 \<le> ilog2 (n div 2)" and lo: "2 ^ nat (ilog2 (n div 2)) \<le> n div 2"
      and hi: "n div 2 < 2 * 2 ^ nat (ilog2 (n div 2))" by simp_all
    have e: "ilog2 n = 1 + ilog2 (n div 2)" using False by (subst ilog2.simps) simp
    have p: "(2::int) ^ nat (1 + ilog2 (n div 2)) = 2 * 2 ^ nat (ilog2 (n div 2))"
      using k by (simp add: nat_add_distrib)
    have "2 * (n div 2) \<le> n" by simp
    moreover have "n < 2 * (n div 2) + 2" by simp
    ultimately show ?thesis using k lo hi e p by simp
  qed
qed

lemma floorLog2_bounds:
  assumes "0 < x"
  shows "2 powi (floorLog2 x) \<le> x \<and> x < 2 powi (floorLog2 x + 1)"
proof -
  obtain p q where pq: "quotient_of x = (p, q)" by (cases "quotient_of x") auto
  then have q: "0 < q" by (rule quotient_of_denom_pos)
  from pq have x: "x = of_int p / of_int q" by (rule quotient_of_div)
  with assms q have p: "0 < p" by (simp add: zero_less_divide_iff)
  let ?a = "ilog2 p" and ?b = "ilog2 q"
  from p ilog2_bounds [of p] have a: "0 \<le> ?a" "2 ^ nat ?a \<le> p" "p < 2 * 2 ^ nat ?a" by simp_all
  from q ilog2_bounds [of q] have b: "0 \<le> ?b" "2 ^ nat ?b \<le> q" "q < 2 * 2 ^ nat ?b" by simp_all
  have pa: "(2::rat) powi ?a = 2 ^ nat ?a" using a(1) by (simp add: power_int_def)
  have pb: "(2::rat) powi ?b = 2 ^ nat ?b" using b(1) by (simp add: power_int_def)
  have ra: "(2::rat) ^ nat ?a \<le> of_int p" "(of_int p :: rat) < 2 * 2 ^ nat ?a"
    using a(2,3) by (metis of_int_le_iff of_int_numeral of_int_power, metis of_int_less_iff of_int_mult of_int_numeral of_int_power)
  have rb: "(2::rat) ^ nat ?b \<le> of_int q" "(of_int q :: rat) < 2 * 2 ^ nat ?b"
    using b(2,3) by (metis of_int_le_iff of_int_numeral of_int_power, metis of_int_less_iff of_int_mult of_int_numeral of_int_power)
  have qpos: "(0::rat) < of_int q" using q by simp
  have k: "(2::rat) powi (?a - ?b) = 2 ^ nat ?a / 2 ^ nat ?b"
    by (simp add: power_int_diff pa pb)
  have up: "x < 2 powi (?a - ?b + 1)"
  proof -
    have "of_int p / of_int q < (2 * 2 ^ nat ?a) / (2 ^ nat ?b :: rat)"
      by (rule frac_less) (use p ra(2) rb(1) in simp_all)
    then have "x < 2 * 2 ^ nat ?a / 2 ^ nat ?b" by (simp add: x)
    also have "\<dots> = 2 powi (?a - ?b + 1)" by (simp add: power_int_add k)
    finally show ?thesis .
  qed
  have lo: "2 powi (?a - ?b - 1) \<le> x"
  proof -
    have "(2::rat) powi (?a - ?b - 1) = 2 ^ nat ?a / (2 * 2 ^ nat ?b)"
      by (simp add: power_int_diff k)
    also have "\<dots> \<le> of_int p / of_int q"
      by (rule frac_le) (use p qpos ra(1) rb(2) in simp_all)
    also have "\<dots> = x" by (simp add: x)
    finally show ?thesis .
  qed
  show ?thesis
  proof (cases "2 powi (?a - ?b) \<le> x")
    case True
    then have "floorLog2 x = ?a - ?b" by (simp add: floorLog2_def pq Let_def)
    with True up show ?thesis by simp
  next
    case False
    then have "floorLog2 x = ?a - ?b - 1" by (simp add: floorLog2_def pq Let_def)
    with False lo show ?thesis by simp
  qed
qed

lemma roundHalfEven_error: "\<bar>of_int (roundHalfEven y) - y\<bar> \<le> 1 / 2"
proof -
  have "of_int \<lfloor>y\<rfloor> \<le> y" "y < of_int \<lfloor>y\<rfloor> + 1" by linarith+
  then show ?thesis by (auto simp: roundHalfEven_def Let_def abs_le_iff)
qed

lemma double_error:
  assumes "2 powi (- 1022) \<le> \<bar>x\<bar>"
  shows "\<bar>double x - x\<bar> \<le> \<bar>x\<bar> / 2 ^ 53"
proof -
  have "(0::rat) < 2 powi (- 1022)" by simp
  with assms have a: "0 < \<bar>x\<bar>" by linarith
  then have x0: "x \<noteq> 0" by simp
  let ?f = "floorLog2 \<bar>x\<bar>"
  from floorLog2_bounds [OF a] have lo: "2 powi ?f \<le> \<bar>x\<bar>" and hi: "\<bar>x\<bar> < 2 powi (?f + 1)"
    by simp_all
  from assms hi have "(2::rat) powi (- 1022) < 2 powi (?f + 1)" by linarith
  then have "- 1022 < ?f + 1"
  proof (rule contrapos_pp)
    assume "\<not> - 1022 < ?f + 1"
    then have "?f + 1 \<le> - 1022" by simp
    then have "(2::rat) powi (?f + 1) \<le> 2 powi (- 1022)"
      by (rule power_int_increasing) simp
    then show "\<not> (2::rat) powi (- 1022) < 2 powi (?f + 1)" by simp
  qed
  then have e: "max (?f - 52) (- 1074) = ?f - 52" by simp
  let ?e = "?f - 52"
  let ?m = "roundHalfEven (\<bar>x\<bar> / 2 powi ?e)"
  have pe: "(0::rat) < 2 powi ?e" by simp
  have d: "double x = sgn x * of_int ?m * 2 powi ?e"
    using x0 e by (simp add: double_def Let_def)
  have r: "\<bar>of_int ?m - \<bar>x\<bar> / 2 powi ?e\<bar> \<le> 1 / 2" by (rule roundHalfEven_error)
  have "\<bar>of_int ?m * 2 powi ?e - \<bar>x\<bar>\<bar> = \<bar>of_int ?m - \<bar>x\<bar> / 2 powi ?e\<bar> * 2 powi ?e"
  proof -
    have "of_int ?m * 2 powi ?e - \<bar>x\<bar> = (of_int ?m - \<bar>x\<bar> / 2 powi ?e) * 2 powi ?e"
      using pe by (simp add: field_simps)
    then show ?thesis using pe by (simp add: abs_mult)
  qed
  also have "\<dots> \<le> 1 / 2 * 2 powi ?e"
    using r pe by (simp add: mult_right_mono)
  also have "\<dots> = 2 powi ?f / 2 ^ 53"
    by (simp add: power_int_diff)
  also have "\<dots> \<le> \<bar>x\<bar> / 2 ^ 53"
    using lo by (simp add: divide_right_mono)
  finally have m: "\<bar>of_int ?m * 2 powi ?e - \<bar>x\<bar>\<bar> \<le> \<bar>x\<bar> / 2 ^ 53" .
  have "double x - x = sgn x * (of_int ?m * 2 powi ?e - \<bar>x\<bar>)"
  proof -
    have "sgn x * \<bar>x\<bar> = x" by (rule sgn_mult_abs)
    then show ?thesis unfolding d by (simp add: algebra_simps)
  qed
  then have "\<bar>double x - x\<bar> = \<bar>of_int ?m * 2 powi ?e - \<bar>x\<bar>\<bar>"
    using x0 by (simp add: abs_mult abs_sgn_eq)
  with m show ?thesis by simp
qed

lemma arith_below:
  "X \<le> K - 1 / 86400000 \<Longrightarrow> 0 < K \<Longrightarrow> K \<le> 1000 \<Longrightarrow> D \<le> X + X / 9007199254740992 \<Longrightarrow> D < (K::rat)"
  by linarith

lemma arith_above:
  "K + 1 / 86400000 \<le> X \<Longrightarrow> 0 < K \<Longrightarrow> K \<le> 1000 \<Longrightarrow> X - X / 9007199254740992 \<le> D \<Longrightarrow> \<not> D < (K::rat)"
  by linarith

lemma arith_negative:
  "X < 0 \<Longrightarrow> 0 < K \<Longrightarrow> D \<le> X - X / 9007199254740992 \<Longrightarrow> D < (K::rat)"
  by linarith

lemma arith_abs:
  fixes X :: rat
  assumes "\<bar>D - X\<bar> \<le> \<bar>X\<bar> / 2 ^ 53"
  shows "X - \<bar>X\<bar> / 9007199254740992 \<le> D \<and> D \<le> X + \<bar>X\<bar> / 9007199254740992"
proof -
  have p: "(2::rat) ^ 53 = 9007199254740992" by simp
  from assms have "\<bar>D - X\<bar> \<le> \<bar>X\<bar> / 9007199254740992" unfolding p .
  then have "D - X \<le> \<bar>X\<bar> / 9007199254740992" "- (D - X) \<le> \<bar>X\<bar> / 9007199254740992"
    by (simp_all only: abs_le_iff)
  then show ?thesis by linarith
qed

lemma arith_nine_tenths:
  fixes B :: rat
  assumes "1 \<le> B"
    and "B * (8106479329266893 / 9007199254740992)
           - B * (8106479329266893 / 9007199254740992) / 9007199254740992 \<le> D"
    and "D \<le> B * (8106479329266893 / 9007199254740992)
           + B * (8106479329266893 / 9007199254740992) / 9007199254740992"
  shows "\<bar>D - B * (9 / 10)\<bar> \<le> B * (9 / 10) / 2 ^ 51"
proof -
  have p: "(2::rat) ^ 51 = 2251799813685248" by simp
  have "D - B * (9 / 10) \<le> B * (9 / 10) / 2251799813685248" using assms by linarith
  moreover have "- (D - B * (9 / 10)) \<le> B * (9 / 10) / 2251799813685248"
    using assms by linarith
  ultimately show ?thesis unfolding p by (simp only: abs_le_iff)
qed

lemma arith_eleven_tenths:
  fixes B :: rat
  assumes "1 \<le> B"
    and "B * (2476979795053773 / 2251799813685248)
           - B * (2476979795053773 / 2251799813685248) / 9007199254740992 \<le> D"
    and "D \<le> B * (2476979795053773 / 2251799813685248)
           + B * (2476979795053773 / 2251799813685248) / 9007199254740992"
  shows "\<bar>D - B * (11 / 10)\<bar> \<le> B * (11 / 10) / 2 ^ 51"
proof -
  have p: "(2::rat) ^ 51 = 2251799813685248" by simp
  have "D - B * (11 / 10) \<le> B * (11 / 10) / 2251799813685248" using assms by linarith
  moreover have "- (D - B * (11 / 10)) \<le> B * (11 / 10) / 2251799813685248"
    using assms by linarith
  ultimately show ?thesis unfolding p by (simp only: abs_le_iff)
qed

lemma normal_range: "1 / 134217728 \<le> \<bar>x\<bar> \<Longrightarrow> (2::rat) powi (- 1022) \<le> \<bar>x\<bar>"
proof -
  assume a: "1 / 134217728 \<le> \<bar>x\<bar>"
  have "(2::rat) powi (- 1022) \<le> 2 powi (- 27)"
    by (rule power_int_increasing) simp_all
  also have "(2::rat) powi (- 27) = 1 / 134217728"
    by (simp add: power_int_minus)
  finally show ?thesis using a by linarith
qed

lemma double_bounds:
  assumes "1 / 134217728 \<le> \<bar>x\<bar>"
  shows "x - \<bar>x\<bar> / 9007199254740992 \<le> double x \<and> double x \<le> x + \<bar>x\<bar> / 9007199254740992"
  by (rule arith_abs) (rule double_error, rule normal_range [OF assms])

lemma days_compare:
  assumes k: "0 < k" "k \<le> 1000" and ex: "double (of_int k) = of_int k"
  shows "(double (of_int d / 86400000) < of_int k) = (d < k * 86400000)"
proof (cases "d = 0")
  case True
  with k show ?thesis by (simp add: double_def)
next
  case False
  let ?x = "of_int d / 86400000 :: rat"
  have ax: "\<bar>?x\<bar> = of_int \<bar>d\<bar> / 86400000" by simp
  from False have "1 \<le> \<bar>d\<bar>" by simp
  then have "(1::rat) \<le> of_int \<bar>d\<bar>" by (metis of_int_1 of_int_le_iff)
  then have n: "1 / 134217728 \<le> \<bar>?x\<bar>" unfolding ax by simp
  note b = double_bounds [OF n]
  have kr: "(0::rat) < of_int k" "(of_int k :: rat) \<le> 1000" using k by simp_all
  show ?thesis
  proof (cases "d < k * 86400000")
    case True
    then have "d \<le> k * 86400000 - 1" by simp
    then have "(of_int d :: rat) \<le> of_int (k * 86400000 - 1)" by (simp only: of_int_le_iff)
    then have h: "?x \<le> of_int k - 1 / 86400000" by simp
    have "double ?x < of_int k"
    proof (cases "?x < 0")
      case True
      with b have "double ?x \<le> ?x - ?x / 9007199254740992" by simp
      with True kr(1) show ?thesis by (rule arith_negative)
    next
      case False
      with b have "double ?x \<le> ?x + ?x / 9007199254740992" by simp
      with h kr show ?thesis by (rule arith_below)
    qed
    with True show ?thesis by simp
  next
    case False
    have "\<not> double ?x < of_int k"
    proof (cases "d = k * 86400000")
      case True
      then have "?x = of_int k" by simp
      with ex show ?thesis by simp
    next
      case ne: False
      with False have "k * 86400000 + 1 \<le> d" by simp
      then have "(of_int (k * 86400000 + 1) :: rat) \<le> of_int d" by (simp only: of_int_le_iff)
      then have h: "of_int k + 1 / 86400000 \<le> ?x" by simp
      with kr have "0 < ?x" by linarith
      with b have "?x - ?x / 9007199254740992 \<le> double ?x" by simp
      with h kr show ?thesis by (rule arith_above)
    qed
    with False show ?thesis by simp
  qed
qed

lemma week_days: "(double (of_int d / 86400000) < 7) = (d < 7 * 86400000)"
proof -
  have "double (of_int 7) = of_int 7" by code_simp
  from days_compare [of 7 d, OF _ _ this] show ?thesis by simp
qed

lemma month_days: "(double (of_int d / 86400000) < 30) = (d < 30 * 86400000)"
proof -
  have "double (of_int 30) = of_int 30" by code_simp
  from days_compare [of 30 d, OF _ _ this] show ?thesis by simp
qed

lemma nine_tenths: "double (9 / 10) = 8106479329266893 / 9007199254740992"
  by code_simp

lemma eleven_tenths: "double (11 / 10) = 2476979795053773 / 2251799813685248"
  by code_simp

lemma scaled_error:
  assumes b: "0 \<le> b" and c: "c = 9 / 10 \<or> c = 11 / 10"
  shows "\<bar>double (of_int b * double c) - of_int b * c\<bar> \<le> of_int b * c / 2 ^ 51"
proof (cases "b = 0")
  case True
  then show ?thesis by (simp add: double_def)
next
  case False
  with b have "1 \<le> b" by simp
  then have B: "(1::rat) \<le> of_int b" by (metis of_int_1 of_int_le_iff)
  from c show ?thesis
  proof
    assume c9: "c = 9 / 10"
    let ?p = "of_int b * (8106479329266893 / 9007199254740992) :: rat"
    have pp: "0 < ?p" using B by simp
    then have ap: "\<bar>?p\<bar> = ?p" by simp
    have "1 / 134217728 \<le> \<bar>?p\<bar>" unfolding ap using B by linarith
    from double_bounds [OF this] have d:
      "?p - ?p / 9007199254740992 \<le> double ?p" "double ?p \<le> ?p + ?p / 9007199254740992"
      unfolding ap by simp_all
    show ?thesis
      unfolding c9 nine_tenths using B d by (rule arith_nine_tenths)
  next
    assume c11: "c = 11 / 10"
    let ?p = "of_int b * (2476979795053773 / 2251799813685248) :: rat"
    have pp: "0 < ?p" using B by simp
    then have ap: "\<bar>?p\<bar> = ?p" by simp
    have "1 / 134217728 \<le> \<bar>?p\<bar>" unfolding ap using B by linarith
    from double_bounds [OF this] have d:
      "?p - ?p / 9007199254740992 \<le> double ?p" "double ?p \<le> ?p + ?p / 9007199254740992"
      unfolding ap by simp_all
    show ?thesis
      unfolding c11 eleven_tenths using B d by (rule arith_eleven_tenths)
  qed
qed

lemma roundHalfEven_int: "roundHalfEven (of_int k) = k"
  by (simp add: roundHalfEven_def)

lemma double_int:
  assumes "0 \<le> n" and "n < 2 ^ 53"
  shows "double (of_int n) = of_int n"
proof (cases "n = 0")
  case True
  then show ?thesis by (simp add: double_def)
next
  case False
  with assms(1) have n1: "1 \<le> n" by simp
  then have pos: "(0::rat) < of_int n" by simp
  then have ab: "\<bar>of_int n :: rat\<bar> = of_int n" by simp
  let ?f = "floorLog2 (of_int n)"
  from floorLog2_bounds [OF pos]
  have lo: "2 powi ?f \<le> (of_int n :: rat)" and hi: "(of_int n :: rat) < 2 powi (?f + 1)"
    by simp_all
  have "(of_int n :: rat) < of_int (2 ^ 53)" using assms(2) by (simp only: of_int_less_iff)
  then have "(of_int n :: rat) < 2 powi 53" by simp
  with lo have "(2::rat) powi ?f < 2 powi 53" by linarith
  then have f53: "?f < 53"
  proof (rule contrapos_pp)
    assume "\<not> ?f < 53"
    then have "53 \<le> ?f" by simp
    then have "(2::rat) powi 53 \<le> 2 powi ?f" by (rule power_int_increasing) simp
    then show "\<not> (2::rat) powi ?f < 2 powi 53" by simp
  qed
  have "(1::rat) \<le> of_int n" using n1 by (metis of_int_1 of_int_le_iff)
  with hi have "(2::rat) powi 0 < 2 powi (?f + 1)" by simp
  then have f0: "0 \<le> ?f"
  proof (rule contrapos_pp)
    assume "\<not> 0 \<le> ?f"
    then have "?f + 1 \<le> 0" by simp
    then have "(2::rat) powi (?f + 1) \<le> 2 powi 0" by (rule power_int_increasing) simp
    then show "\<not> (2::rat) powi 0 < 2 powi (?f + 1)" by simp
  qed
  from f0 f53 have e: "max (?f - 52) (- 1074) = ?f - 52" by simp
  define j where "j = nat (52 - ?f)"
  have ej: "?f - 52 = - int j" using f53 by (simp add: j_def)
  have pw: "(2::rat) powi (?f - 52) = 1 / 2 ^ j"
    unfolding ej by (simp add: power_int_minus divide_inverse)
  have q: "(of_int n :: rat) / 2 powi (?f - 52) = of_int (n * 2 ^ j)"
    unfolding pw by simp
  have ne: "((of_int n :: rat) = 0) = False" using pos by simp
  have "double (of_int n) =
          sgn (of_int n :: rat) * of_int (roundHalfEven (of_int n / 2 powi (?f - 52)))
            * 2 powi (?f - 52)"
    unfolding double_def Let_def ab e ne if_False by (rule refl)
  also have "\<dots> = sgn (of_int n :: rat) * of_int (n * 2 ^ j) * (1 / 2 ^ j)"
  proof -
    have q': "(of_int n :: rat) / (1 / 2 ^ j) = of_int (n * 2 ^ j)" by simp
    show ?thesis unfolding pw q' roundHalfEven_int by (rule refl)
  qed
  also have "\<dots> = of_int n" using pos by simp
  finally show ?thesis .
qed

lemma trim_empty_iff: "trim s = [] \<longleftrightarrow> (\<forall>c \<in> set s. isWhitespace c)"
proof
  assume "trim s = []"
  then have b: "\<forall>x \<in> set (dropWhile isWhitespace s). isWhitespace x"
    by (simp add: trim_def dropWhile_eq_Nil_conv)
  have a: "dropWhile isWhitespace s = []"
  proof (rule ccontr)
    assume n: "dropWhile isWhitespace s \<noteq> []"
    then have "\<not> isWhitespace (hd (dropWhile isWhitespace s))" by (rule hd_dropWhile)
    moreover from n have "hd (dropWhile isWhitespace s) \<in> set (dropWhile isWhitespace s)" by simp
    ultimately show False using b by blast
  qed
  from a show "\<forall>c \<in> set s. isWhitespace c"
    by (simp only: dropWhile_eq_Nil_conv)
next
  assume "\<forall>c \<in> set s. isWhitespace c"
  then have "dropWhile isWhitespace s = []"
    by (simp add: dropWhile_eq_Nil_conv)
  then show "trim s = []"
    unfolding trim_def by (simp del: dropWhile_eq_Nil_conv)
qed

lemma wildcards_not_whitespace: "\<not> isWhitespace CHR ''*''" "\<not> isWhitespace CHR ''?''"
  by (simp_all add: isWhitespace_def code_def)

lemma special_iff:
  "hasWildcardOrSpecial q \<longleftrightarrow>
     (\<exists>c \<in> set q. c = CHR ''*'' \<or> c = CHR ''?'' \<or>
        \<not> (isLower c \<or> isUpper c \<or> isDigit c \<or> isWhitespace c \<or>
           c = CHR ''-'' \<or> c = CHR ''_'' \<or> c = CHR ''.''))"
  unfolding hasWildcardOrSpecial_def by blast

lemma special_not_blank:
  assumes "hasWildcardOrSpecial q"
  shows "trim q \<noteq> []"
proof -
  from assms obtain c where c: "c \<in> set q"
    and d: "c = CHR ''*'' \<or> c = CHR ''?'' \<or>
           \<not> (isLower c \<or> isUpper c \<or> isDigit c \<or> isWhitespace c \<or>
              c = CHR ''-'' \<or> c = CHR ''_'' \<or> c = CHR ''.'')"
    unfolding special_iff by blast
  from d have "\<not> isWhitespace c" using wildcards_not_whitespace by auto
  with c show ?thesis by (auto simp: trim_empty_iff)
qed

lemma chooseStrategy_cases:
  "chooseStrategy q =
     (if length q > 3 \<and> hasWildcardOrSpecial q then Fuzzy
      else if trim q = [] then FiltersOnly
      else Structured)"
  using special_not_blank [of q]
  by (auto simp: chooseStrategy_def shouldUseFuzzySearch_def)

section \<open>Facts about the store\<close>

lemma searchStatement_empty_query:
  "searchStatement [] limit offset =
     \<lparr>sql = ''SELECT * FROM files'' @ orderLimitClause, whereConditions = [],
      params = [SqlNum (of_nat limit), SqlNum (of_nat offset)]\<rparr>"
  by (simp add: searchStatement_def parseSearchQuery_def parsePart_def noTerms_def truthy_def
      startsWith_def Let_def)

lemma searchFiles_empty_query:
  "searchFiles (Some st) [] limit offset =
     (case engineError st of
        Some e \<Rightarrow> Inl (Error e)
      | None \<Rightarrow> Inr (map rowToFile (take limit (drop offset (sort_key orderKey (files st))))))"
  by (simp add: searchFiles_def runSelect_def searchStatement_empty_query split: option.splits)


section \<open>Choosing the search strategy\<close>

lemma updateFuseIndex_origin:
  "indexBuiltByService svc \<Longrightarrow> indexBuiltByService (updateFuseIndex clk db svc)"
  by (auto simp: indexBuiltByService_def updateFuseIndex_def split: sum.splits option.splits)

lemma search_keeps_index_origin:
  assumes "indexBuiltByService svc"
  shows "indexBuiltByService (snd (search fuse clk cal db svc q filtersArg limit offset))"
proof -
  obtain cleanQuery ops where p: "parseSearchOperators cal q = (cleanQuery, ops)"
    by (cases "parseSearchOperators cal q")
  show ?thesis
  proof (cases filtersArg)
    case None
    with assms p show ?thesis by (simp add: search_def searchBody_def)
  next
    case (Some filters)
    show ?thesis
    proof (cases "chooseStrategy cleanQuery")
      case FiltersOnly
      with assms p Some show ?thesis
        by (auto simp: search_def searchBody_def Let_def map_sum_def split: sum.splits)
    next
      case Fuzzy
      with updateFuseIndex_origin [OF assms, of clk db] p Some show ?thesis
        by (auto simp: search_def searchBody_def Let_def fuzzySearch_def split: option.splits)
    next
      case Structured
      with assms p Some show ?thesis
        by (auto simp: search_def searchBody_def Let_def map_sum_def split: sum.splits)
    qed
  qed
qed

lemma fresh_service_index_origin: "indexBuiltByService freshService"
  by (simp add: indexBuiltByService_def freshService_def)

text \<open>
  Claim C3, as stated, fails: the query \<open>a*b\<close> holds a wildcard and has no operator, yet
  \<open>shouldUseFuzzySearch\<close> asks for more than three characters and the search takes the
  structured path.
\<close>

theorem short_wildcard_query_is_structured:
  "fst (parseSearchOperators sampleCalendar ''a*b'') = ''a*b'' \<and> CHR ''*'' \<in> set ''a*b'' \<and>
   chooseStrategy ''a*b'' = Structured"
  by code_simp

text \<open>
  Claim C3, amended. Let the operator parser leave the cleaned query \<open>cleanQuery\<close>, and let
  the index held by the service, if any, be one that \<open>updateFuseIndex\<close> built. The search
  takes the fuzzy path exactly when \<open>cleanQuery\<close> has more than three characters and holds
  \<open>*\<close>, \<open>?\<close> or a character that is not alphanumeric, white space, \<open>-\<close>, \<open>_\<close> or \<open>.\<close>;
  nothing but the cleaned query enters the choice. On the fuzzy path the index is kept when
  it is present and younger than five minutes, and otherwise rebuilt from the first 10000
  rows of the store (kept as it was when that read fails); the answer is the page of the
  filtered and sorted first \<open>2 * limit\<close> hits of that index for the cleaned query (no hits
  without an index), the store is not asked for the text, and the index asked weighs the
  name 0.7, the path 0.2 and the extension 0.1. In every other case with a cleaned query
  that is not blank, in particular for every cleaned query of at most three characters
  with a wildcard, the answer is the page of the filtered and sorted rows that the store
  returns for the cleaned query, and the empty result when the store fails.
\<close>

theorem strategy_selection:
  assumes p: "parseSearchOperators cal q = (cleanQuery, ops)"
    and inv: "indexBuiltByService svc"
  shows
    "(chooseStrategy cleanQuery = Fuzzy \<longleftrightarrow>
        length cleanQuery > 3 \<and>
        (\<exists>c \<in> set cleanQuery. c = CHR ''*'' \<or> c = CHR ''?'' \<or>
           \<not> (isLower c \<or> isUpper c \<or> isDigit c \<or> isWhitespace c \<or>
              c = CHR ''-'' \<or> c = CHR ''_'' \<or> c = CHR ''.''))) \<and>
     (length cleanQuery > 3 \<and>
        (\<exists>c \<in> set cleanQuery. c = CHR ''*'' \<or> c = CHR ''?'' \<or>
           \<not> (isLower c \<or> isUpper c \<or> isDigit c \<or> isWhitespace c \<or>
              c = CHR ''-'' \<or> c = CHR ''_'' \<or> c = CHR ''.'')) \<longrightarrow>
        (let combinedFilters = combineFilters filters ops;
             svc' = (if fuseIndex svc \<noteq> None \<and> now clk - lastIndexUpdate svc < 5 * 60 * 1000
                     then svc
                     else (case searchFiles db [] 10000 0 of
                             Inl err \<Rightarrow> svc
                           | Inr allFiles \<Rightarrow>
                               svc\<lparr>fuseIndex := Some \<lparr>docs = allFiles, options = fuseOptions\<rparr>,
                                   lastIndexUpdate := now clk\<rparr>));
             results = (case fuseIndex svc' of
                          None \<Rightarrow> []
                        | Some idx \<Rightarrow> take (limit * 2) (fuse idx cleanQuery));
             sorted = sortResults (now clk) (applyFilters results combinedFilters) cleanQuery
         in search fuse clk cal db svc q (Some filters) limit offset =
              (\<lparr>items = take limit (drop offset sorted), totalCount = length sorted,
                query = q, executionTime = endTime clk - startTime clk\<rparr>, svc') \<and>
            (\<forall>idx. fuseIndex svc' = Some idx \<longrightarrow>
                map (\<lambda>k. (keyName k, weight k)) (keys (options idx)) =
                  [(''name'', 7 / 10), (''path'', 2 / 10), (''extension'', 1 / 10)]))) \<and>
     (\<not> (length cleanQuery > 3 \<and>
          (\<exists>c \<in> set cleanQuery. c = CHR ''*'' \<or> c = CHR ''?'' \<or>
             \<not> (isLower c \<or> isUpper c \<or> isDigit c \<or> isWhitespace c \<or>
                c = CHR ''-'' \<or> c = CHR ''_'' \<or> c = CHR ''.''))) \<and>
      trim cleanQuery \<noteq> [] \<longrightarrow>
        search fuse clk cal db svc q (Some filters) limit offset =
          (case searchFiles db cleanQuery (limit * 2) offset of
             Inl err \<Rightarrow>
               (\<lparr>items = [], totalCount = 0, query = q,
                 executionTime = endTime clk - startTime clk\<rparr>, svc)
           | Inr results \<Rightarrow>
               (let sorted = sortResults (now clk)
                               (applyFilters results (combineFilters filters ops)) cleanQuery
                in (\<lparr>items = take limit (drop offset sorted), totalCount = length sorted,
                     query = q, executionTime = endTime clk - startTime clk\<rparr>, svc))))"
proof -
  let ?special = "\<exists>c \<in> set cleanQuery. c = CHR ''*'' \<or> c = CHR ''?'' \<or>
           \<not> (isLower c \<or> isUpper c \<or> isDigit c \<or> isWhitespace c \<or>
              c = CHR ''-'' \<or> c = CHR ''_'' \<or> c = CHR ''.'')"
  have sp: "?special = hasWildcardOrSpecial cleanQuery" by (simp add: special_iff)
  note cs = chooseStrategy_cases [of cleanQuery]
  have a: "chooseStrategy cleanQuery = Fuzzy \<longleftrightarrow> length cleanQuery > 3 \<and> ?special"
    unfolding sp using cs by (auto split: if_splits)
  have u: "updateFuseIndex clk db svc =
             (if fuseIndex svc \<noteq> None \<and> now clk - lastIndexUpdate svc < 5 * 60 * 1000
              then svc
              else (case searchFiles db [] 10000 0 of
                      Inl err \<Rightarrow> svc
                    | Inr allFiles \<Rightarrow>
                        svc\<lparr>fuseIndex := Some \<lparr>docs = allFiles, options = fuseOptions\<rparr>,
                            lastIndexUpdate := now clk\<rparr>))"
    by (simp add: updateFuseIndex_def indexUpdateThreshold_def)
  have w: "\<forall>idx. fuseIndex (updateFuseIndex clk db svc) = Some idx \<longrightarrow>
                map (\<lambda>k. (keyName k, weight k)) (keys (options idx)) =
                  [(''name'', 7 / 10), (''path'', 2 / 10), (''extension'', 1 / 10)]"
  proof (intro allI impI)
    fix idx assume i: "fuseIndex (updateFuseIndex clk db svc) = Some idx"
    from updateFuseIndex_origin [OF inv, of clk db] i have "options idx = fuseOptions"
      by (simp add: indexBuiltByService_def)
    then show "map (\<lambda>k. (keyName k, weight k)) (keys (options idx)) =
                  [(''name'', 7 / 10), (''path'', 2 / 10), (''extension'', 1 / 10)]"
      by (simp add: fuseOptions_def)
  qed
  have b: "length cleanQuery > 3 \<and> ?special \<longrightarrow>
        (let combinedFilters = combineFilters filters ops;
             svc' = updateFuseIndex clk db svc;
             results = (case fuseIndex svc' of
                          None \<Rightarrow> []
                        | Some idx \<Rightarrow> take (limit * 2) (fuse idx cleanQuery));
             sorted = sortResults (now clk) (applyFilters results combinedFilters) cleanQuery
         in search fuse clk cal db svc q (Some filters) limit offset =
              (\<lparr>items = take limit (drop offset sorted), totalCount = length sorted,
                query = q, executionTime = endTime clk - startTime clk\<rparr>, svc') \<and>
            (\<forall>idx. fuseIndex svc' = Some idx \<longrightarrow>
                map (\<lambda>k. (keyName k, weight k)) (keys (options idx)) =
                  [(''name'', 7 / 10), (''path'', 2 / 10), (''extension'', 1 / 10)]))"
  proof
    assume "length cleanQuery > 3 \<and> ?special"
    with a have f: "chooseStrategy cleanQuery = Fuzzy" by simp
    show "(let combinedFilters = combineFilters filters ops;
             svc' = updateFuseIndex clk db svc;
             results = (case fuseIndex svc' of
                          None \<Rightarrow> []
                        | Some idx \<Rightarrow> take (limit * 2) (fuse idx cleanQuery));
             sorted = sortResults (now clk) (applyFilters results combinedFilters) cleanQuery
         in search fuse clk cal db svc q (Some filters) limit offset =
              (\<lparr>items = take limit (drop offset sorted), totalCount = length sorted,
                query = q, executionTime = endTime clk - startTime clk\<rparr>, svc') \<and>
            (\<forall>idx. fuseIndex svc' = Some idx \<longrightarrow>
                map (\<lambda>k. (keyName k, weight k)) (keys (options idx)) =
                  [(''name'', 7 / 10), (''path'', 2 / 10), (''extension'', 1 / 10)]))"
      using f p w
      by (cases "fuseIndex (updateFuseIndex clk db svc)")
         (simp_all add: search_def searchBody_def fuzzySearch_def Let_def)
  qed
  have c: "\<not> (length cleanQuery > 3 \<and> ?special) \<and> trim cleanQuery \<noteq> [] \<longrightarrow>
        search fuse clk cal db svc q (Some filters) limit offset =
          (case searchFiles db cleanQuery (limit * 2) offset of
             Inl err \<Rightarrow>
               (\<lparr>items = [], totalCount = 0, query = q,
                 executionTime = endTime clk - startTime clk\<rparr>, svc)
           | Inr results \<Rightarrow>
               (let sorted = sortResults (now clk)
                               (applyFilters results (combineFilters filters ops)) cleanQuery
                in (\<lparr>items = take limit (drop offset sorted), totalCount = length sorted,
                     query = q, executionTime = endTime clk - startTime clk\<rparr>, svc)))"
  proof
    assume h: "\<not> (length cleanQuery > 3 \<and> ?special) \<and> trim cleanQuery \<noteq> []"
    then have s: "chooseStrategy cleanQuery = Structured"
      unfolding sp using cs by simp
    show "search fuse clk cal db svc q (Some filters) limit offset =
          (case searchFiles db cleanQuery (limit * 2) offset of
             Inl err \<Rightarrow>
               (\<lparr>items = [], totalCount = 0, query = q,
                 executionTime = endTime clk - startTime clk\<rparr>, svc)
           | Inr results \<Rightarrow>
               (let sorted = sortResults (now clk)
                               (applyFilters results (combineFilters filters ops)) cleanQuery
                in (\<lparr>items = take limit (drop offset sorted), totalCount = length sorted,
                     query = q, executionTime = endTime clk - startTime clk\<rparr>, svc)))"
      using s p
      by (cases "searchFiles db cleanQuery (limit * 2) offset")
         (simp_all add: search_def searchBody_def databaseSearch_def Let_def)
  qed
  from a b c show ?thesis unfolding u by blast
qed

theorem strategy_selection_witness:
  "parseSearchOperators sampleCalendar ''rep*rt'' = (''rep*rt'', noOperators) \<and>
   indexBuiltByService staleService \<and>
   chooseStrategy ''rep*rt'' = Fuzzy \<and>
   search sampleFuse sampleClock sampleCalendar (storeOf []) staleService ''rep*rt''
       (Some noFilters) 10 0 =
     (\<lparr>items = [], totalCount = 0, query = ''rep*rt'', executionTime = 4\<rparr>,
      \<lparr>fuseIndex = Some \<lparr>docs = [], options = fuseOptions\<rparr>,
       lastIndexUpdate = now sampleClock\<rparr>)"
proof -
  have h1: "parseSearchOperators sampleCalendar ''rep*rt'' = (''rep*rt'', noOperators)"
    by code_simp
  have h2: "indexBuiltByService staleService"
    by (simp add: indexBuiltByService_def staleService_def)
  have h3: "length ''rep*rt'' > 3 \<and>
        (\<exists>c \<in> set ''rep*rt''. c = CHR ''*'' \<or> c = CHR ''?'' \<or>
           \<not> (isLower c \<or> isUpper c \<or> isDigit c \<or> isWhitespace c \<or>
              c = CHR ''-'' \<or> c = CHR ''_'' \<or> c = CHR ''.''))"
    by simp
  have h4: "searchFiles (storeOf []) [] 10000 0 = Inr []"
    by (simp add: storeOf_def searchFiles_empty_query)
  have h5: "sortResults (now sampleClock) (applyFilters [] (combineFilters noFilters noOperators))
              ''rep*rt'' = []"
    by (simp add: sortResults_def applyFilters_def)
  have h6: "endTime sampleClock - startTime sampleClock = 4"
    by (simp add: sampleClock_def)
  have h7: "\<not> now sampleClock - lastIndexUpdate staleService < 5 * 60 * 1000"
    by (simp add: sampleClock_def staleService_def)
  note t = strategy_selection [OF h1 h2, where fuse = sampleFuse and clk = sampleClock
      and db = "storeOf []" and filters = noFilters and limit = 10 and offset = 0]
  from t h3 have a: "chooseStrategy ''rep*rt'' = Fuzzy" by blast
  from t h3 have "(let combinedFilters = combineFilters noFilters noOperators;
             svc' = (if fuseIndex staleService \<noteq> None \<and> now sampleClock - lastIndexUpdate staleService < 5 * 60 * 1000
                     then staleService
                     else (case searchFiles (storeOf []) [] 10000 0 of
                             Inl err \<Rightarrow> staleService
                           | Inr allFiles \<Rightarrow>
                               staleService\<lparr>fuseIndex := Some \<lparr>docs = allFiles, options = fuseOptions\<rparr>,
                                   lastIndexUpdate := now sampleClock\<rparr>));
             results = (case fuseIndex svc' of
                          None \<Rightarrow> []
                        | Some idx \<Rightarrow> take (10 * 2) (sampleFuse idx ''rep*rt''));
             sorted = sortResults (now sampleClock) (applyFilters results combinedFilters) ''rep*rt''
         in search sampleFuse sampleClock sampleCalendar (storeOf []) staleService ''rep*rt'' (Some noFilters) 10 0 =
              (\<lparr>items = take 10 (drop 0 sorted), totalCount = length sorted,
                query = ''rep*rt'', executionTime = endTime sampleClock - startTime sampleClock\<rparr>, svc') \<and>
            (\<forall>idx. fuseIndex svc' = Some idx \<longrightarrow>
                map (\<lambda>k. (keyName k, weight k)) (keys (options idx)) =
                  [(''name'', 7 / 10), (''path'', 2 / 10), (''extension'', 1 / 10)]))"
    by blast
  then have b: "search sampleFuse sampleClock sampleCalendar (storeOf []) staleService
       ''rep*rt'' (Some noFilters) 10 0 =
     (\<lparr>items = [], totalCount = 0, query = ''rep*rt'', executionTime = 4\<rparr>,
      \<lparr>fuseIndex = Some \<lparr>docs = [], options = fuseOptions\<rparr>,
       lastIndexUpdate = now sampleClock\<rparr>)"
    using h4 h5 h6 h7 by (simp add: Let_def sampleFuse_def)
  from h1 h2 a b show ?thesis by blast
qed

end
